theory Spec2Isabelle
  imports Complex_Main "HOL-Library.Word"
begin

section \<open>Interview rooms: the persisted model\<close>

text \<open>
  The Mongoose model \<^verbatim>\<open>InterviewRoom\<close>. Object ids are kept as the strings the routes
  receive; instants are milliseconds since the epoch, as \<^verbatim>\<open>Date.getTime()\<close> gives them;
  the duration is in minutes.
\<close>

datatype room_status = scheduled | completed | cancelled

record InterviewRoom =
  room_id :: string
  title :: string
  hr :: string
  candidate :: string
  scheduledFor :: int
  duration :: int
  room_jobRole :: string
  room_experienceLevel :: string
  roomLink :: string
  status :: room_status
  room_notes :: "string option"

text \<open>The collection, in its natural order. Mongo keeps \<^verbatim>\<open>_id\<close> unique.\<close>

type_synonym rooms = "InterviewRoom list"

definition unique_ids :: "rooms \<Rightarrow> bool" where
  "unique_ids db = distinct (map room_id db)"

fun status_text :: "room_status \<Rightarrow> string" where
  "status_text scheduled = ''scheduled''"
| "status_text completed = ''completed''"
| "status_text cancelled = ''cancelled''"

text \<open>\<^verbatim>\<open>Model.findOne(filter)\<close>: the first document the filter accepts.\<close>

definition findOne :: "(InterviewRoom \<Rightarrow> bool) \<Rightarrow> rooms \<Rightarrow> InterviewRoom option" where
  "findOne P db = find P db"

text \<open>
  \<^verbatim>\<open>doc.save()\<close> on a document that was read from the collection: the stored document
  with that \<^verbatim>\<open>_id\<close> is replaced.
\<close>

fun save :: "InterviewRoom \<Rightarrow> rooms \<Rightarrow> rooms" where
  "save r [] = []"
| "save r (d # db) = (if room_id d = room_id r then r # db else d # save r db)"

subsection \<open>Instants\<close>

text \<open>
  A \<^verbatim>\<open>Date\<close> holds a time value: a whole number of milliseconds at most 8.64e15 away
  from the epoch, or NaN, which makes it the Invalid Date (\<open>None\<close>).
  \<^verbatim>\<open>new Date(date.getTime() + ms)\<close> is invalid as soon as the sum leaves that range; within
  it the sum of whole numbers is exact in double precision, and so is a product of a whole
  number with 60000, a multiple of 32 that stays below \<open>2 ^ 54\<close> whenever the sum can be
  in range (a larger product is rounded, and the sum is out of range before and after the
  rounding). A comparison with an Invalid Date is false.
\<close>

type_synonym Date = "int option"

definition new_Date :: "int \<Rightarrow> Date" where
  "new_Date t = (if \<bar>t\<bar> \<le> 8640000000000000 then Some t else None)"

definition plus_milliseconds :: "Date \<Rightarrow> int \<Rightarrow> Date" where
  "plus_milliseconds date ms = (case date of None \<Rightarrow> None | Some t \<Rightarrow> new_Date (t + ms))"

definition later :: "Date \<Rightarrow> Date \<Rightarrow> bool" where
  "later a b = (case (a, b) of (Some x, Some y) \<Rightarrow> x > y | _ \<Rightarrow> False)"

subsection \<open>Requests, responses, middleware\<close>

record user =
  userId :: string
  role :: string

text \<open>What \<^verbatim>\<open>jwt.verify\<close> makes of the Authorization header.\<close>

datatype credentials = NoToken | InvalidToken | Verified user

datatype body =
    Message string
  | Room InterviewRoom
  | MessageRoom string InterviewRoom
  | Created string

datatype response = Response (code: nat) (payload: body)

text \<open>
  The server's surroundings: its clock, which reads a valid instant, and
  \<^verbatim>\<open>mongoose.Types.ObjectId.isValid\<close>, which also decides whether a string casts to an
  ObjectId inside a query (a failed cast throws).
\<close>

record server_env =
  now :: int
  isValid :: "string \<Rightarrow> bool"

record request =
  credentials :: credentials
  param :: string

definition authenticateToken :: "credentials \<Rightarrow> response + user" where
  "authenticateToken c =
     (case c of
        NoToken \<Rightarrow> Inl (Response 401 (Message ''Authentication required''))
      | InvalidToken \<Rightarrow> Inl (Response 403 (Message ''Invalid token''))
      | Verified u \<Rightarrow> Inr u)"

definition requireHR :: "user \<Rightarrow> response + user" where
  "requireHR u =
     (if role u \<noteq> ''hr'' then Inl (Response 403 (Message ''HR access required''))
      else Inr u)"

subsection \<open>The room routes of \<^verbatim>\<open>routes/interviews.ts\<close>\<close>

text \<open>
  Every handler takes the collection and returns its response with the collection it
  leaves. A query on a string that does not cast answers 500 from the handler's
  \<^verbatim>\<open>catch\<close>; failures of the database itself are outside the model.
\<close>

text \<open>\<^verbatim>\<open>PUT /:id/cancel\<close>\<close>

definition put_cancel :: "server_env \<Rightarrow> rooms \<Rightarrow> request \<Rightarrow> response \<times> rooms" where
  "put_cancel env db req =
     (case authenticateToken (credentials req) of
        Inl r \<Rightarrow> (r, db)
      | Inr u0 \<Rightarrow>
     (case requireHR u0 of
        Inl r \<Rightarrow> (r, db)
      | Inr u \<Rightarrow>
        if \<not> isValid env (param req) \<or> \<not> isValid env (userId u)
        then (Response 500 (Message ''Error cancelling interview''), db)
        else
          (case findOne (\<lambda>d. room_id d = param req \<and> hr d = userId u) db of
             None \<Rightarrow> (Response 404 (Message ''Interview not found''), db)
           | Some interview \<Rightarrow>
               if status interview \<noteq> scheduled
               then (Response 400 (Message ''Interview cannot be cancelled''), db)
               else
                 (let interview' = interview\<lparr>status := cancelled\<rparr>
                  in (Response 200 (Room interview'), save interview' db)))))"

text \<open>\<^verbatim>\<open>PUT /:id/complete\<close>: the organizer or the candidate.\<close>

definition put_complete :: "server_env \<Rightarrow> rooms \<Rightarrow> request \<Rightarrow> response \<times> rooms" where
  "put_complete env db req =
     (case authenticateToken (credentials req) of
        Inl r \<Rightarrow> (r, db)
      | Inr u \<Rightarrow>
        if \<not> isValid env (param req) \<or> \<not> isValid env (userId u)
        then (Response 500 (Message ''Error completing interview''), db)
        else
          (case findOne (\<lambda>d. room_id d = param req
                              \<and> (hr d = userId u \<or> candidate d = userId u)) db of
             None \<Rightarrow> (Response 404 (Message ''Interview not found''), db)
           | Some interview \<Rightarrow>
               if status interview \<noteq> scheduled
               then (Response 400 (Message ''Interview cannot be completed''), db)
               else
                 (let interview' = interview\<lparr>status := completed\<rparr>
                  in (Response 200 (Room interview'), save interview' db))))"

text \<open>\<^verbatim>\<open>Model.findById\<close>: a string that is no ObjectId makes the query throw.\<close>

datatype db_error = CastError

definition findById :: "server_env \<Rightarrow> string \<Rightarrow> rooms \<Rightarrow> db_error + InterviewRoom option" where
  "findById env i db =
     (if isValid env i then Inr (findOne (\<lambda>d. room_id d = i) db) else Inl CastError)"

text \<open>\<^verbatim>\<open>PUT /:id/auto-complete\<close>: the older route, which looks at the clock.\<close>

definition put_id_auto_complete :: "server_env \<Rightarrow> rooms \<Rightarrow> request \<Rightarrow> response \<times> rooms" where
  "put_id_auto_complete env db req =
     (case findById env (param req) db of
        Inl e \<Rightarrow> (Response 500 (Message ''Error auto-completing interview''), db)
      | Inr None \<Rightarrow> (Response 404 (Message ''Interview not found''), db)
      | Inr (Some interview) \<Rightarrow>
          if status interview \<noteq> scheduled
          then (Response 400 (Message ''Interview is already completed or cancelled''), db)
          else
            (let now_date = Some (now env);
                 scheduledTime = new_Date (scheduledFor interview);
                 endTime = plus_milliseconds scheduledTime (duration interview * 60000)
             in if later now_date endTime
                then (let interview' = interview\<lparr>status := completed\<rparr>
                      in (Response 200 (MessageRoom ''Interview automatically completed'' interview'),
                          save interview' db))
                else (Response 400 (Message ''Interview time has not ended yet''), db)))"

text \<open>
  \<^verbatim>\<open>PUT /auto-complete/:id\<close>: the parameter is tried as an ObjectId first, then as the
  token inside the room link.
\<close>

definition lookup_id_or_token :: "server_env \<Rightarrow> string \<Rightarrow> rooms \<Rightarrow> InterviewRoom option" where
  "lookup_id_or_token env idParam db =
     (let interview = (if isValid env idParam then findOne (\<lambda>d. room_id d = idParam) db
                       else None)
      in case interview of
           None \<Rightarrow> findOne (\<lambda>d. roomLink d = ''/interview-room/'' @ idParam) db
         | Some i \<Rightarrow> Some i)"

definition put_auto_complete :: "server_env \<Rightarrow> rooms \<Rightarrow> request \<Rightarrow> response \<times> rooms" where
  "put_auto_complete env db req =
     (case lookup_id_or_token env (param req) db of
        None \<Rightarrow> (Response 404 (Message ''Interview not found''), db)
      | Some interview \<Rightarrow>
          if status interview \<noteq> scheduled
          then (Response 400 (Message (''Interview is already '' @ status_text (status interview))), db)
          else
            (let interview' = interview\<lparr>status := completed\<rparr>
             in (Response 200 (MessageRoom ''Interview automatically completed'' interview'),
                 save interview' db)))"

text \<open>
  \<^verbatim>\<open>PUT /room/:roomId/complete\<close>: by room link first, then by id inside an inner
  \<^verbatim>\<open>try\<close> whose handler answers 404.
\<close>

definition put_room_complete :: "server_env \<Rightarrow> rooms \<Rightarrow> request \<Rightarrow> response \<times> rooms" where
  "put_room_complete env db req =
     (case findOne (\<lambda>d. roomLink d = ''/interview-room/'' @ param req) db of
        None \<Rightarrow>
          (case findById env (param req) db of
             Inl e \<Rightarrow> (Response 404 (Message ''Interview not found by room ID or direct ID''), db)
           | Inr None \<Rightarrow> (Response 404 (Message ''Interview not found''), db)
           | Inr (Some interviewById) \<Rightarrow>
               if status interviewById \<noteq> scheduled
               then (Response 400 (Message ''Interview is already completed or cancelled''), db)
               else
                 (let interviewById' = interviewById\<lparr>status := completed\<rparr>
                  in (Response 200
                        (MessageRoom ''Interview marked as completed via direct ID'' interviewById'),
                      save interviewById' db)))
      | Some interview \<Rightarrow>
          if status interview \<noteq> scheduled
          then (Response 400 (Message ''Interview is already completed or cancelled''), db)
          else
            (let interview' = interview\<lparr>status := completed\<rparr>
             in (Response 200 (MessageRoom ''Interview marked as completed'' interview'),
                 save interview' db)))"

subsection \<open>Result submission, \<^verbatim>\<open>POST /api/interview-results\<close>\<close>

text \<open>
  Of the submitted result the route only stores the fields and prints the total score into
  the room's notes, so the score is kept as its rendering in the template string.
  \<^verbatim>\<open>result.save()\<close> either throws or yields the new result's id.
\<close>

record result_request =
  res_credentials :: credentials
  interviewId :: "string option"
  totalScore_text :: string
  result_save :: "string option"

definition post_interview_results :: "rooms \<Rightarrow> result_request \<Rightarrow> response \<times> rooms" where
  "post_interview_results db req =
     (case authenticateToken (res_credentials req) of
        Inl r \<Rightarrow> (r, db)
      | Inr u \<Rightarrow>
        (case (case interviewId req of
                 None \<Rightarrow> Inr (None, db)
               | Some iid \<Rightarrow>
                   if iid = [] then Inr (None, db)
                   else
                     (case findOne (\<lambda>d. roomLink d = ''/interview-room/'' @ iid) db of
                        None \<Rightarrow>
                          Inl (Response 404
                            (Message (''InterviewRoom associated with ID '' @ iid
                                      @ '' not found via roomLink.'')))
                      | Some interviewDocument \<Rightarrow>
                          if status interviewDocument = scheduled
                          then (let doc' = interviewDocument\<lparr>status := completed\<rparr>
                                in Inr (Some doc', save doc' db))
                          else Inr (Some interviewDocument, db))) of
           Inl r \<Rightarrow> (r, db)
         | Inr (interviewDocument, db1) \<Rightarrow>
             (case result_save req of
                None \<Rightarrow> (Response 500 (Message ''Error creating interview result''), db1)
              | Some rid \<Rightarrow>
                  (case interviewDocument of
                     None \<Rightarrow> (Response 201 (Created rid), db1)
                   | Some doc \<Rightarrow>
                       (let newNote = ''Result ID: '' @ rid @ '' - Score: ''
                                      @ totalScore_text req @ ''/100'';
                            doc' = (case room_notes doc of
                                      None \<Rightarrow> doc\<lparr>room_notes := Some newNote\<rparr>
                                    | Some n \<Rightarrow>
                                        if length n > 0
                                        then doc\<lparr>room_notes := Some (n @ [CHR 0x0A] @ newNote)\<rparr>
                                        else doc\<lparr>room_notes := Some newNote\<rparr>)
                        in (Response 201 (Created rid), save doc' db1))))))"

section \<open>JavaScript numbers\<close>

text \<open>
  A JavaScript number is an IEEE 754 binary64 value: a real number with a 53-bit
  significand and an exponent between -1074 and 971 for its last bit, an infinity, or NaN.
  The sign of zero is not kept; nothing modelled here reads it. The operations below are
  given for every real number; the numbers of the program are those that \<open>double\<close>
  leaves as they are.
\<close>

datatype number = Finite real | PosInfinity | NegInfinity | NaN

text \<open>
  The binade of \<open>x\<close>: the least \<open>e\<close> from -1023 on with \<open>\<bar>x\<bar> < 2 powi (e + 1)\<close>, and
  1023 when there is none. The last bit of the double nearest \<open>x\<close> then has the exponent
  \<open>quantum x\<close>, which stops at -1074 for the subnormal numbers.
\<close>

fun binade_from :: "nat \<Rightarrow> int \<Rightarrow> real \<Rightarrow> int" where
  "binade_from 0 e x = e"
| "binade_from (Suc n) e x = (if x < 2 powi (e + 1) then e else binade_from n (e + 1) x)"

definition binade :: "real \<Rightarrow> int" where
  "binade x = binade_from 2046 (- 1023) \<bar>x\<bar>"

definition quantum :: "real \<Rightarrow> int" where
  "quantum x = max (binade x) (- 1022) - 52"

definition round_half_even :: "real \<Rightarrow> int" where
  "round_half_even y =
     (let f = \<lfloor>y\<rfloor>
      in if y - of_int f < 1 / 2 then f
         else if y - of_int f > 1 / 2 then f + 1
         else if even f then f else f + 1)"

text \<open>
  Rounding a real number to binary64, to nearest with ties to even, as every arithmetic
  operation does with its exact result: \<open>rounded\<close> is the nearest multiple of the
  quantum, and a result of \<open>2 ^ 1024\<close> or beyond is an infinity.
\<close>

definition rounded :: "real \<Rightarrow> real" where
  "rounded x = of_int (round_half_even (x / 2 powi quantum x)) * 2 powi quantum x"

definition double :: "real \<Rightarrow> number" where
  "double x =
     (if rounded x \<ge> 2 ^ 1024 then PosInfinity
      else if rounded x \<le> - (2 ^ 1024) then NegInfinity
      else Finite (rounded x))"

fun sign_of :: "number \<Rightarrow> int" where
  "sign_of (Finite x) = (if x > 0 then 1 else if x < 0 then - 1 else 0)"
| "sign_of PosInfinity = 1"
| "sign_of NegInfinity = - 1"
| "sign_of NaN = 0"

text \<open>The operators \<^verbatim>\<open>*\<close> and \<^verbatim>\<open>+\<close>.\<close>

fun js_times :: "number \<Rightarrow> number \<Rightarrow> number" where
  "js_times (Finite x) (Finite y) = double (x * y)"
| "js_times NaN b = NaN"
| "js_times a NaN = NaN"
| "js_times a b =
     (if sign_of a * sign_of b = 0 then NaN
      else if sign_of a * sign_of b > 0 then PosInfinity else NegInfinity)"

fun js_plus :: "number \<Rightarrow> number \<Rightarrow> number" where
  "js_plus (Finite x) (Finite y) = double (x + y)"
| "js_plus NaN b = NaN"
| "js_plus a NaN = NaN"
| "js_plus PosInfinity NegInfinity = NaN"
| "js_plus NegInfinity PosInfinity = NaN"
| "js_plus PosInfinity b = PosInfinity"
| "js_plus NegInfinity b = NegInfinity"
| "js_plus a PosInfinity = PosInfinity"
| "js_plus a NegInfinity = NegInfinity"

text \<open>
  \<^verbatim>\<open>Math.round\<close> and \<^verbatim>\<open>Math.floor\<close> are exact: a double of magnitude \<open>2 ^ 52\<close> or more
  is whole already. \<^verbatim>\<open>Math.round\<close> rounds halves upwards.
\<close>

fun Math_round :: "number \<Rightarrow> number" where
  "Math_round (Finite x) = Finite (of_int \<lfloor>x + 1 / 2\<rfloor>)"
| "Math_round a = a"

fun Math_floor :: "number \<Rightarrow> number" where
  "Math_floor (Finite x) = Finite (of_int \<lfloor>x\<rfloor>)"
| "Math_floor a = a"

text \<open>
  A whole number as \<^verbatim>\<open>JSON.stringify\<close> writes it and \<^verbatim>\<open>JSON.parse\<close> reads it back;
  infinities and NaN are written as \<^verbatim>\<open>null\<close>.
\<close>

fun json_whole :: "number \<Rightarrow> int option" where
  "json_whole (Finite x) = Some \<lfloor>x\<rfloor>"
| "json_whole a = None"

section \<open>The interview room page: admission by the clock\<close>

text \<open>
  \<^verbatim>\<open>addMinutes\<close> and \<^verbatim>\<open>differenceInSeconds\<close> of date-fns. The difference of two
  valid dates is computed in double precision: the time values are subtracted, the result
  is divided by 1000, and the quotient is truncated towards zero. With an Invalid Date the
  difference is NaN (\<open>None\<close>).
\<close>

definition addMinutes :: "Date \<Rightarrow> int \<Rightarrow> Date" where
  "addMinutes date amount = plus_milliseconds date (amount * 60000)"

definition trunc_number :: "number \<Rightarrow> int option" where
  "trunc_number a =
     (case a of Finite x \<Rightarrow> Some (if x < 0 then \<lceil>x\<rceil> else \<lfloor>x\<rfloor>) | _ \<Rightarrow> None)"

definition differenceInSeconds :: "Date \<Rightarrow> Date \<Rightarrow> int option" where
  "differenceInSeconds dateLeft dateRight =
     (case (dateLeft, dateRight) of
        (Some l, Some r) \<Rightarrow>
          (case double (of_int (l - r)) of
             Finite diff \<Rightarrow> trunc_number (double (diff / 1000))
           | _ \<Rightarrow> None)
      | _ \<Rightarrow> None)"

text \<open>
  The page state that \<^verbatim>\<open>fetchInterview\<close> in \<^verbatim>\<open>InterviewRoomPage.tsx\<close> writes, with the
  request it sends to \<^verbatim>\<open>PUT /api/interviews/auto-complete/<id>\<close> and whether it starts
  the one-second countdown.
\<close>

record room_page =
  page_error :: "string option"
  canStart :: bool
  roomExpired :: bool
  remainingTime :: "int option"
  countdown :: bool
  autoCompleteRequest :: "string option"

definition initial_page :: room_page where
  "initial_page =
     \<lparr>page_error = None, canStart = False, roomExpired = False, remainingTime = None,
      countdown = False, autoCompleteRequest = None\<rparr>"

text \<open>
  \<^verbatim>\<open>fetchInterview\<close> once the room snapshot \<^verbatim>\<open>data\<close> has arrived, at instant
  \<^verbatim>\<open>now\<close>, which is valid. \<^verbatim>\<open>data.duration || 60\<close> reads a duration of 0 as 60
  minutes. The difference \<^verbatim>\<open>timeDiff\<close> is only compared with 300000, which rounding to
  double precision does not change; it is NaN, and the comparison false, when the start is
  an Invalid Date. A remaining time of NaN is not positive, so it is shown as 0.
\<close>

definition fetchInterview :: "int \<Rightarrow> InterviewRoom \<Rightarrow> room_page \<Rightarrow> room_page" where
  "fetchInterview now_ms data page =
     (if status data = cancelled
      then page\<lparr>page_error := Some ''This interview has been cancelled''\<rparr>
      else if status data = completed
      then page\<lparr>page_error := Some ''This interview has already been completed'',
                roomExpired := True, canStart := False\<rparr>
      else
        (let now_date = Some now_ms;
             interviewTime = new_Date (scheduledFor data);
             timeDiff = map_option (\<lambda>t. t - now_ms) interviewTime;
             endTime = addMinutes interviewTime (if duration data = 0 then 60 else duration data)
         in if later now_date endTime
            then
              (let page1 = page\<lparr>page_error := Some ''This interview has already ended'',
                                roomExpired := True, canStart := False\<rparr>
               in if status data = scheduled
                  then page1\<lparr>autoCompleteRequest := Some (room_id data)\<rparr>
                  else page1)
            else if (case timeDiff of Some d \<Rightarrow> d > 300000 | None \<Rightarrow> False)
            then page\<lparr>page_error := Some ''This interview has not started yet'',
                      canStart := False\<rparr>
            else
              (let remainingSecs = differenceInSeconds endTime now_date
               in page\<lparr>canStart := True,
                       remainingTime :=
                         Some (case remainingSecs of
                                 Some r \<Rightarrow> if r > 0 then r else 0
                               | None \<Rightarrow> 0),
                       countdown :=
                         (case remainingSecs of Some r \<Rightarrow> r > 0 | None \<Rightarrow> False)\<rparr>)))"

section \<open>The interview session (\<^verbatim>\<open>InterviewContext.tsx\<close>)\<close>

definition QUESTION_TIME_LIMIT_SECONDS :: int where
  "QUESTION_TIME_LIMIT_SECONDS = 180"

definition DEFAULT_PRACTICE_QUESTION_COUNT :: int where
  "DEFAULT_PRACTICE_QUESTION_COUNT = 10"

definition DEFAULT_SCHEDULED_QUESTION_COUNT :: int where
  "DEFAULT_SCHEDULED_QUESTION_COUNT = 5"

datatype JobRole = web_developer | app_developer | ml_ai | ux_designer | data_scientist

datatype ExperienceLevel = fresher | junior | mid_level | senior

fun role_text :: "JobRole \<Rightarrow> string" where
  "role_text web_developer = ''web-developer''"
| "role_text app_developer = ''app-developer''"
| "role_text ml_ai = ''ml-ai''"
| "role_text ux_designer = ''ux-designer''"
| "role_text data_scientist = ''data-scientist''"

fun level_text :: "ExperienceLevel \<Rightarrow> string" where
  "level_text fresher = ''fresher''"
| "level_text junior = ''junior''"
| "level_text mid_level = ''mid-level''"
| "level_text senior = ''senior''"

record InterviewConfig =
  jobRole :: JobRole
  experienceLevel :: ExperienceLevel

datatype MediaStream = MediaStream nat

record InterviewStartOptions =
  opt_mediaStream :: "MediaStream option"
  opt_jobRole :: "JobRole option"
  opt_experienceLevel :: "ExperienceLevel option"
  opt_interviewId :: "string option"
  durationInSeconds :: "int option"
  opt_isHrScheduled :: "bool option"

record InterviewQuestion =
  question_id :: string
  question_text :: string
  question_audioUrl :: "string option"

text \<open>
  An answer's text is a JavaScript string, a sequence of UTF-16 code units, because
  \<^verbatim>\<open>saveAnswer\<close> measures \<^verbatim>\<open>text.trim().length\<close>. The other strings are only stored
  and compared. An optional field is \<open>None\<close> when the object lacks it. Scores are whole
  numbers: 0, the backend's rounded value, or the floor the fallback computes.
\<close>

type_synonym js_string = "16 word list"

definition js :: "string \<Rightarrow> js_string" where
  "js s = map of_char s"

text \<open>White space and line terminators of ECMAScript, which \<^verbatim>\<open>String.prototype.trim\<close> strips.\<close>

definition isWhiteSpace :: "16 word \<Rightarrow> bool" where
  "isWhiteSpace c =
     (c \<in> {0x0009, 0x000A, 0x000B, 0x000C, 0x000D, 0x0020, 0x00A0, 0x1680,
            0x2028, 0x2029, 0x202F, 0x205F, 0x3000, 0xFEFF}
      \<or> (0x2000 \<le> c \<and> c \<le> 0x200A))"

definition trim :: "js_string \<Rightarrow> js_string" where
  "trim s = rev (dropWhile isWhiteSpace (rev (dropWhile isWhiteSpace s)))"

record InterviewAnswer =
  questionId :: string
  answer_text :: js_string
  audioUrl :: "string option"
  score :: "int option"
  feedback :: "string option"
  strengths :: "string list option"
  weaknesses :: "string list option"
  questionText :: "string option"

record InterviewResult =
  totalScore :: int
  result_answers :: "InterviewAnswer list"
  result_feedback :: string
  cheatingDetected :: bool
  result_strengths :: "string list"
  improvements :: "string list"
  date :: int
  isHrScheduled :: "bool option"

text \<open>The state held by \<^verbatim>\<open>InterviewProvider\<close>, and the session storage key it writes.\<close>

record session =
  config :: "InterviewConfig option"
  questions :: "InterviewQuestion list"
  currentQuestionIndex :: nat
  answers :: "InterviewAnswer list"
  result :: "InterviewResult option"
  isInterviewInProgress :: bool
  isInterviewComplete :: bool
  mediaStream :: "MediaStream option"
  isLoadingQuestions :: bool
  mediaStreamError :: "string option"
  isInitializingMedia :: bool
  isHrScheduledInterview :: bool
  currentInterviewId :: "string option"

definition initial_session :: session where
  "initial_session =
     \<lparr>config = None, questions = [], currentQuestionIndex = 0, answers = [], result = None,
      isInterviewInProgress = False, isInterviewComplete = False, mediaStream = None,
      isLoadingQuestions = False, mediaStreamError = None, isInitializingMedia = False,
      isHrScheduledInterview = False, currentInterviewId = None\<rparr>"

text \<open>The static fallback table \<^verbatim>\<open>MOCK_QUESTIONS\<close>.\<close>

fun MOCK_QUESTIONS :: "JobRole \<Rightarrow> ExperienceLevel \<Rightarrow> string list" where
  "MOCK_QUESTIONS web_developer fresher =
     [''Tell me about yourself and your interest in web development.'',
      ''What HTML and CSS concepts are you familiar with?'',
      ''Have you worked with JavaScript before? What basic concepts do you understand?'',
      ''Describe a simple web project you've worked on.'']"
| "MOCK_QUESTIONS web_developer junior =
     [''Tell me about your experience with responsive design.'',
      ''How do you approach debugging in JavaScript?'',
      ''Explain the difference between let, const, and var in JavaScript.'',
      ''What frontend frameworks or libraries have you worked with?'']"
| "MOCK_QUESTIONS web_developer mid_level =
     [''Explain the concept of closures in JavaScript.'',
      ''How do you handle state management in a React application?'',
      ''Describe your experience with RESTful APIs.'',
      ''How do you optimize website performance?'']"
| "MOCK_QUESTIONS web_developer senior =
     [''Describe a complex architecture you've designed for a web application.'',
      ''How do you approach testing in a large-scale web application?'',
      ''Explain your experience with microservices in web development.'',
      ''How do you mentor junior developers in your team?'']"
| "MOCK_QUESTIONS app_developer fresher =
     [''Why are you interested in mobile app development?'',
      ''What programming languages have you learned?'',
      ''Describe a simple app idea you would like to build.'',
      ''What do you know about the app development lifecycle?'']"
| "MOCK_QUESTIONS app_developer junior =
     [''Tell me about an app you've worked on.'',
      ''How familiar are you with native vs cross-platform development?'',
      ''Describe your experience with state management in mobile apps.'',
      ''How do you handle user input validation?'']"
| "MOCK_QUESTIONS app_developer mid_level =
     [''Explain your approach to app architecture.'',
      ''How do you handle offline capabilities in mobile apps?'',
      ''Describe your experience with consuming APIs in mobile applications.'',
      ''How do you approach testing for mobile applications?'']"
| "MOCK_QUESTIONS app_developer senior =
     [''Describe a complex mobile architecture you've designed.'',
      ''How do you approach performance optimization in mobile apps?'',
      ''Explain your experience with CI/CD for mobile applications.'',
      ''How do you manage dependencies in large-scale mobile applications?'']"
| "MOCK_QUESTIONS ml_ai fresher =
     [''Why are you interested in AI and machine learning?'',
      ''What ML/AI concepts have you studied?'',
      ''Have you completed any ML projects or courses?'',
      ''What programming languages do you know for data analysis?'']"
| "MOCK_QUESTIONS ml_ai junior =
     [''Explain the difference between supervised and unsupervised learning.'',
      ''Describe a simple ML project you've worked on.'',
      ''How familiar are you with Python libraries for ML?'',
      ''What do you know about data preprocessing?'']"
| "MOCK_QUESTIONS ml_ai mid_level =
     [''Explain how you would approach a classification problem.'',
      ''Describe your experience with neural networks.'',
      ''How do you evaluate ML model performance?'',
      ''What experience do you have with NLP or computer vision?'']"
| "MOCK_QUESTIONS ml_ai senior =
     [''Describe a complex ML system you've designed and deployed.'',
      ''How do you approach ML model optimization and maintenance?'',
      ''Explain your experience with distributed computing for ML.'',
      ''How do you stay current with the rapidly evolving field of AI?'']"
| "MOCK_QUESTIONS ux_designer fresher =
     [''Why are you interested in UX design?'',
      ''What design tools have you learned to use?'',
      ''Describe your understanding of user-centered design.'',
      ''Have you created any design projects yet?'']"
| "MOCK_QUESTIONS ux_designer junior =
     [''Tell me about your design process.'',
      ''How do you conduct user research?'',
      ''Describe a design project you've worked on.'',
      ''How do you handle feedback on your designs?'']"
| "MOCK_QUESTIONS ux_designer mid_level =
     [''How do you translate user needs into design solutions?'',
      ''Describe your experience with usability testing.'',
      ''How do you collaborate with developers?'',
      ''Tell me about a challenging design problem you solved.'']"
| "MOCK_QUESTIONS ux_designer senior =
     [''How do you approach UX strategy for large products?'',
      ''Describe how you've built or managed a design system.'',
      ''How do you measure the success of your UX designs?'',
      ''Tell me about how you mentor junior designers.'']"
| "MOCK_QUESTIONS data_scientist fresher =
     [''Why are you interested in data science?'',
      ''What statistical concepts are you familiar with?'',
      ''What programming languages do you know for data analysis?'',
      ''Have you worked on any data projects?'']"
| "MOCK_QUESTIONS data_scientist junior =
     [''Describe a data analysis project you've worked on.'',
      ''How do you approach data cleaning and preparation?'',
      ''What visualization tools have you worked with?'',
      ''How do you determine which statistical test to use?'']"
| "MOCK_QUESTIONS data_scientist mid_level =
     [''How do you approach feature engineering?'',
      ''Describe your experience with big data technologies.'',
      ''How do you communicate technical findings to non-technical stakeholders?'',
      ''Tell me about a challenging data problem you solved.'']"
| "MOCK_QUESTIONS data_scientist senior =
     [''How do you build data science teams and processes?'',
      ''Describe a complex data pipeline you've designed.'',
      ''How do you approach model deployment and monitoring?'',
      ''How do you ensure ethical use of data in your projects?'']"

subsection \<open>Starting a session\<close>

text \<open>
  \<^verbatim>\<open>hrScheduledCheck\<close>: the explicit flag when it is given, else whether an interview id
  was passed (\<^verbatim>\<open>!!options?.interviewId\<close>, so an empty string counts as none).
\<close>

definition hrScheduledCheck :: "InterviewStartOptions \<Rightarrow> bool" where
  "hrScheduledCheck options =
     (case opt_isHrScheduled options of
        Some b \<Rightarrow> b
      | None \<Rightarrow> (case opt_interviewId options of None \<Rightarrow> False | Some i \<Rightarrow> i \<noteq> []))"

definition questionCount :: "InterviewStartOptions \<Rightarrow> int" where
  "questionCount options =
     (if hrScheduledCheck options
      then (case durationInSeconds options of
              None \<Rightarrow> DEFAULT_SCHEDULED_QUESTION_COUNT
            | Some d \<Rightarrow>
                if d \<noteq> 0 \<and> d > 0
                then max 1 \<lfloor>d / real_of_int QUESTION_TIME_LIMIT_SECONDS\<rfloor>
                else DEFAULT_SCHEDULED_QUESTION_COUNT)
      else DEFAULT_PRACTICE_QUESTION_COUNT)"

text \<open>What \<^verbatim>\<open>fetch\<close> yields: it throws, or answers with a status that is ok or not.\<close>

datatype 'a http_reply = NetworkFailure | HttpError nat string | HttpOk 'a

record questions_request =
  q_jobRole :: JobRole
  q_experienceLevel :: ExperienceLevel
  q_count :: int

text \<open>
  \<^verbatim>\<open>startInterview\<close>. Its surroundings are arguments: the questions endpoint (an ok reply
  carries \<^verbatim>\<open>data.questions\<close> when that is an array), the outcome of
  \<^verbatim>\<open>getUserMedia\<close>, and \<^verbatim>\<open>getRandomId\<close> as the sequence of ids it hands out. The
  requests sent to the questions endpoint are returned with the new state.
\<close>

definition mock_fallback :: "(nat \<Rightarrow> string) \<Rightarrow> InterviewConfig \<Rightarrow> InterviewQuestion list" where
  "mock_fallback getRandomId sessionConfig =
     (let mock = MOCK_QUESTIONS (jobRole sessionConfig) (experienceLevel sessionConfig);
          mockQuestions =
            map (\<lambda>(k, t). \<lparr>question_id = getRandomId k, question_text = t,
                            question_audioUrl = None\<rparr>)
              (zip [0 ..< length mock] mock)
      in if length mockQuestions > 0 then mockQuestions
         else [\<lparr>question_id = getRandomId 0,
                 question_text =
                   ''Mock questions for '' @ role_text (jobRole sessionConfig) @ ''/''
                   @ level_text (experienceLevel sessionConfig)
                   @ '' not defined. Tell me about a project you are proud of.'',
                 question_audioUrl = None\<rparr>])"

definition startInterview ::
  "(questions_request \<Rightarrow> string list option http_reply) \<Rightarrow> string + MediaStream \<Rightarrow>
   (nat \<Rightarrow> string) \<Rightarrow> session \<Rightarrow> InterviewStartOptions \<Rightarrow>
   questions_request list \<times> session" where
  "startInterview fetchQuestions getUserMedia getRandomId s options =
     (let s1 = s\<lparr>isLoadingQuestions := True, isInitializingMedia := True,
                  isInterviewComplete := False, result := None, answers := [],
                  isHrScheduledInterview := hrScheduledCheck options,
                  currentInterviewId :=
                    (case opt_interviewId options of
                       None \<Rightarrow> None
                     | Some i \<Rightarrow> if i \<noteq> [] then Some i else None)\<rparr>;
          count = questionCount options;
          sessionConfig =
            (case (opt_jobRole options, opt_experienceLevel options) of
               (Some r, Some l) \<Rightarrow> Some \<lparr>jobRole = r, experienceLevel = l\<rparr>
             | _ \<Rightarrow> config s)
      in case sessionConfig of
           None \<Rightarrow>
             ([], s1\<lparr>questions :=
                        [\<lparr>question_id = getRandomId 0,
                          question_text = ''No role/level selected. Tell me about yourself.'',
                          question_audioUrl = None\<rparr>],
                     isLoadingQuestions := False, isInitializingMedia := False,
                     isInterviewInProgress := True\<rparr>)
         | Some cfg \<Rightarrow>
             (let s2 = s1\<lparr>config := Some cfg\<rparr>;
                  s3 = (case opt_mediaStream options of
                          Some m \<Rightarrow> s2\<lparr>mediaStream := Some m\<rparr>
                        | None \<Rightarrow>
                            (case getUserMedia of
                               Inr userStream \<Rightarrow>
                                 s2\<lparr>mediaStream := Some userStream, mediaStreamError := None\<rparr>
                             | Inl message \<Rightarrow> s2\<lparr>mediaStreamError := Some message\<rparr>));
                  apiRequestBody = \<lparr>q_jobRole = jobRole cfg,
                                    q_experienceLevel = experienceLevel cfg,
                                    q_count = count\<rparr>;
                  s4 = (case fetchQuestions apiRequestBody of
                          HttpOk (Some texts) \<Rightarrow>
                            s3\<lparr>questions :=
                                 map (\<lambda>(k, t). \<lparr>question_id = getRandomId k, question_text = t,
                                                 question_audioUrl = None\<rparr>)
                                   (zip [0 ..< length texts] texts)\<rparr>
                        | _ \<Rightarrow> s3\<lparr>questions := mock_fallback getRandomId cfg\<rparr>)
              in ([apiRequestBody],
                  s4\<lparr>currentQuestionIndex := 0, isInterviewInProgress := True,
                     isLoadingQuestions := False, isInitializingMedia := False\<rparr>)))"



subsection \<open>Scoring an answer\<close>

record analyze_request =
  req_question :: string
  req_answer :: js_string
  req_jobRole :: "JobRole option"
  req_experienceLevel :: "ExperienceLevel option"

record analysis =
  an_score :: int
  an_feedback :: string
  an_strengths :: "string list option"
  an_weaknesses :: "string list option"

text \<open>
  What the evaluator service does with \<^verbatim>\<open>POST /evaluate-answer\<close>: a payload whose
  score is a number and whose feedback is a string, some other payload, or an error that
  axios throws, with the service's status and \<^verbatim>\<open>detail\<close> when it answered at all (never
  a 2xx status).
\<close>

datatype evaluator_reply =
    Evaluation number string
  | UnexpectedReply
  | EvaluatorError "(nat \<times> string option) option"

text \<open>The analysis as the backend's JSON carries it: the score is a whole number or null.\<close>

record analysis_json =
  aj_score :: "int option"
  aj_feedback :: string

text \<open>\<^verbatim>\<open>POST /api/interviews/gemini/analyze\<close> of \<^verbatim>\<open>routes/interviews.ts\<close>.\<close>

definition post_gemini_analyze ::
  "(analyze_request \<Rightarrow> evaluator_reply) \<Rightarrow> analyze_request \<Rightarrow> analysis_json http_reply" where
  "post_gemini_analyze evaluator req =
     (if req_question req = [] \<or> req_answer req = []
      then HttpError 400 ''Question and answer are required''
      else
        (case evaluator req of
           Evaluation sc fb \<Rightarrow>
             HttpOk \<lparr>aj_score = json_whole (Math_round (js_times sc (Finite 100))),
                    aj_feedback = fb\<rparr>
         | UnexpectedReply \<Rightarrow>
             HttpError 500 ''Error analyzing answer: Unexpected response from evaluator service''
         | EvaluatorError None \<Rightarrow>
             HttpError 500 ''Error analyzing answer from evaluator service''
         | EvaluatorError (Some (st, detail)) \<Rightarrow>
             HttpError (if st = 0 then 500 else st)
               (case detail of
                  None \<Rightarrow> ''Error analyzing answer from evaluator service''
                | Some d \<Rightarrow>
                    if d = [] then ''Error analyzing answer from evaluator service'' else d)))"

text \<open>
  \<^verbatim>\<open>analyzeAnswer\<close>: anything but an ok reply ends in the \<^verbatim>\<open>catch\<close>, which makes up an
  analysis from \<^verbatim>\<open>Math.random()\<close>, here the argument \<^verbatim>\<open>random\<close>, a double that is at
  least 0 and less than 1; the numbers computed from it are finite.
\<close>

definition mockAnalysis :: "real \<Rightarrow> analysis" where
  "mockAnalysis random =
     \<lparr>an_score =
        (case js_plus (Math_floor (js_times (Finite random) (Finite 21))) (Finite 50) of
           Finite v \<Rightarrow> \<lfloor>v\<rfloor>
         | _ \<Rightarrow> 0),
      an_feedback = ''Error analyzing your answer with the AI service. This is fallback feedback.'',
      an_strengths = Some [],
      an_weaknesses = Some [''AI analysis unavailable'']\<rparr>"

definition analyzeAnswer ::
  "(analyze_request \<Rightarrow> analysis http_reply) \<Rightarrow> real \<Rightarrow> InterviewConfig option \<Rightarrow>
   string \<Rightarrow> js_string \<Rightarrow> JobRole option \<Rightarrow> ExperienceLevel option \<Rightarrow>
   analyze_request \<times> analysis" where
  "analyzeAnswer fetchAnalyze random cfg question answer roleArg levelArg =
     (let requestBody =
            \<lparr>req_question = question, req_answer = answer,
             req_jobRole = (case roleArg of Some r \<Rightarrow> Some r | None \<Rightarrow> map_option jobRole cfg),
             req_experienceLevel =
               (case levelArg of Some l \<Rightarrow> Some l | None \<Rightarrow> map_option experienceLevel cfg)\<rparr>
      in (requestBody,
          case fetchAnalyze requestBody of
            HttpOk analysisResult \<Rightarrow> analysisResult
          | _ \<Rightarrow> mockAnalysis random))"

subsection \<open>Saving an answer\<close>

text \<open>What the caller of \<^verbatim>\<open>saveAnswer\<close> passes: an answer without the scoring fields.\<close>

record answerData =
  ad_questionId :: string
  ad_text :: js_string
  ad_audioUrl :: "string option"
  ad_questionText :: "string option"

primrec findIndex :: "('a \<Rightarrow> bool) \<Rightarrow> 'a list \<Rightarrow> nat option" where
  "findIndex P [] = None"
| "findIndex P (x # xs) = (if P x then Some 0 else map_option Suc (findIndex P xs))"

text \<open>The object spread \<^verbatim>\<open>{ ...old, ...new }\<close>: a field the new answer lacks stays.\<close>

definition spread :: "'a option \<Rightarrow> 'a option \<Rightarrow> 'a option" where
  "spread old new = (case new of None \<Rightarrow> old | Some v \<Rightarrow> Some v)"

definition spread_answer :: "InterviewAnswer \<Rightarrow> InterviewAnswer \<Rightarrow> InterviewAnswer" where
  "spread_answer old new =
     \<lparr>questionId = questionId new, answer_text = answer_text new,
      audioUrl = spread (audioUrl old) (audioUrl new),
      score = spread (score old) (score new),
      feedback = spread (feedback old) (feedback new),
      strengths = spread (strengths old) (strengths new),
      weaknesses = spread (weaknesses old) (weaknesses new),
      questionText = spread (questionText old) (questionText new)\<rparr>"

text \<open>The updater that \<^verbatim>\<open>saveAnswer\<close> hands to \<^verbatim>\<open>setAnswers\<close>.\<close>

definition updatedAnswers :: "InterviewAnswer \<Rightarrow> InterviewAnswer list \<Rightarrow> InterviewAnswer list" where
  "updatedAnswers finalAnswerData prevAnswers =
     (case findIndex (\<lambda>a. questionId a = questionId finalAnswerData) prevAnswers of
        Some existingIndex \<Rightarrow>
          prevAnswers[existingIndex :=
            spread_answer (prevAnswers ! existingIndex) finalAnswerData]
      | None \<Rightarrow> prevAnswers @ [finalAnswerData])"

text \<open>
  \<^verbatim>\<open>saveAnswer\<close>, returning the requests it sent to the scoring endpoint and the new
  state. \<^verbatim>\<open>analyzeAnswer\<close> catches its own failures, so the outer \<^verbatim>\<open>catch\<close> of
  \<^verbatim>\<open>saveAnswer\<close> is never entered.
\<close>

definition saveAnswer ::
  "(analyze_request \<Rightarrow> analysis http_reply) \<Rightarrow> real \<Rightarrow> session \<Rightarrow> answerData \<Rightarrow>
   analyze_request list \<times> session" where
  "saveAnswer fetchAnalyze random s answerData =
     (case config s of
        None \<Rightarrow> ([], s)
      | Some cfg \<Rightarrow>
          if \<not> currentQuestionIndex s < length (questions s) then ([], s)
          else if ad_text answerData \<noteq> [] \<and> length (trim (ad_text answerData)) > 10
          then
            (let currentText = question_text (questions s ! currentQuestionIndex s);
                 (requestBody, analysis) =
                    analyzeAnswer fetchAnalyze random (config s) currentText (ad_text answerData)
                      (Some (jobRole cfg)) (Some (experienceLevel cfg));
                 finalAnswerData =
                   \<lparr>questionId = ad_questionId answerData, answer_text = ad_text answerData,
                    audioUrl = ad_audioUrl answerData,
                    score = Some (an_score analysis),
                    feedback = Some (an_feedback analysis),
                    strengths = Some (case an_strengths analysis of None \<Rightarrow> [] | Some l \<Rightarrow> l),
                    weaknesses = Some (case an_weaknesses analysis of None \<Rightarrow> [] | Some l \<Rightarrow> l),
                    questionText = ad_questionText answerData\<rparr>
             in ([requestBody], s\<lparr>answers := updatedAnswers finalAnswerData (answers s)\<rparr>))
          else
            (let finalAnswerData =
                   \<lparr>questionId = ad_questionId answerData, answer_text = ad_text answerData,
                    audioUrl = ad_audioUrl answerData,
                    score = Some 0,
                    feedback = Some ''Answer was too short for analysis.'',
                    strengths = Some [],
                    weaknesses = Some [],
                    questionText = ad_questionText answerData\<rparr>
             in ([], s\<lparr>answers := updatedAnswers finalAnswerData (answers s)\<rparr>)))"

subsection \<open>Finishing: the aggregated result\<close>

text \<open>\<^verbatim>\<open>[...new Set(xs)]\<close>: the elements in the order they were first inserted.\<close>

definition Set_add :: "'a list \<Rightarrow> 'a \<Rightarrow> 'a list" where
  "Set_add members x = (if x \<in> set members then members else members @ [x])"

definition new_Set :: "'a list \<Rightarrow> 'a list" where
  "new_Set xs = foldl Set_add [] xs"

definition answersWithScores :: "InterviewAnswer list \<Rightarrow> InterviewAnswer list" where
  "answersWithScores as = filter (\<lambda>answer. score answer \<noteq> None) as"

definition totalScore_of :: "InterviewAnswer list \<Rightarrow> int" where
  "totalScore_of as =
     (if length (answersWithScores as) > 0
      then round (real_of_int
                    (foldl (\<lambda>sum answer. sum + (case score answer of Some v \<Rightarrow> v | None \<Rightarrow> 0))
                       0 (answersWithScores as))
                  / real (length (answersWithScores as)))
      else 0)"

definition uniqueStrengths :: "InterviewAnswer list \<Rightarrow> string list" where
  "uniqueStrengths as =
     take 5 (new_Set (filter (\<lambda>strength. strength \<noteq> [])
       (concat (map (\<lambda>answer. case strengths answer of Some l \<Rightarrow> l | None \<Rightarrow> []) as))))"

definition uniqueImprovements :: "InterviewAnswer list \<Rightarrow> string list" where
  "uniqueImprovements as =
     take 5 (new_Set (filter (\<lambda>weakness. weakness \<noteq> [])
       (concat (map (\<lambda>answer. case weaknesses answer of Some l \<Rightarrow> l | None \<Rightarrow> []) as))))"

definition feedback_of :: "int \<Rightarrow> string" where
  "feedback_of tot =
     (if tot \<ge> 80
      then ''Excellent job! You demonstrated strong communication skills and provided comprehensive answers.''
      else if tot \<ge> 70
      then ''Good job! Your answers were solid with some room for improvement in specific areas.''
      else if tot \<ge> 60
      then ''Satisfactory performance. With some preparation, you can improve your interview skills.''
      else ''You need more practice with interview questions. Focus on being more specific and structured in your answers.'')"

definition finalAnswers :: "InterviewQuestion list \<Rightarrow> InterviewAnswer list \<Rightarrow> InterviewAnswer list" where
  "finalAnswers qs as =
     map (\<lambda>question.
            case find (\<lambda>a. questionId a = question_id question) as of
              Some existingAnswer \<Rightarrow>
                existingAnswer\<lparr>questionText := Some (question_text question)\<rparr>
            | None \<Rightarrow>
                \<lparr>questionId = question_id question, answer_text = js ''Skipped'',
                 audioUrl = None, score = Some 0,
                 feedback = Some ''This question was skipped.'',
                 strengths = Some [], weaknesses = Some [],
                 questionText = Some (question_text question)\<rparr>) qs"

definition resultToSave :: "int \<Rightarrow> session \<Rightarrow> InterviewResult" where
  "resultToSave now_ms s =
     \<lparr>totalScore = totalScore_of (answers s),
      result_answers = finalAnswers (questions s) (answers s),
      result_feedback = feedback_of (totalScore_of (answers s)),
      cheatingDetected = False,
      result_strengths = uniqueStrengths (answers s),
      improvements = uniqueImprovements (answers s),
      date = now_ms,
      isHrScheduled = Some (isHrScheduledInterview s)\<rparr>"

text \<open>
  \<^verbatim>\<open>finishInterview\<close> as a change of the provider's state. The requests it then sends to
  the backend (completing the room, posting the result) are logged on failure and change
  nothing here.
\<close>

definition finishInterview :: "int \<Rightarrow> session \<Rightarrow> session" where
  "finishInterview now_ms s =
     (let s1 = (case mediaStream s of Some m \<Rightarrow> s\<lparr>mediaStream := None\<rparr> | None \<Rightarrow> s);
          s2 = (if length (answers s) > 0 \<and> config s \<noteq> None
                then s1\<lparr>result := Some (resultToSave now_ms s)\<rparr>
                else s1\<lparr>result := None\<rparr>)
      in s2\<lparr>isInterviewInProgress := False, currentQuestionIndex := 0,
            isInterviewComplete := True\<rparr>)"

section \<open>Properties of the room lifecycle: vocabulary and sample data\<close>

text \<open>
  \<open>never_reopened db db'\<close>: the collection \<open>db'\<close> holds the same rooms as \<open>db\<close>, in the
  same places, and every room that had left \<open>scheduled\<close> in \<open>db\<close> has the status it had.
\<close>

definition never_reopened :: "rooms \<Rightarrow> rooms \<Rightarrow> bool" where
  "never_reopened db db' =
     (map room_id db' = map room_id db
      \<and> list_all2 (\<lambda>d d'. status d = scheduled \<or> status d' = status d) db db')"

text \<open>A room, a server and a request used as concrete inputs below.\<close>

definition demo_room :: InterviewRoom where
  "demo_room =
     \<lparr>room_id = ''64b7f0c2a1d3e4f5a6b7c8d9'', title = ''Frontend screening'',
      hr = ''64b7f0c2a1d3e4f5a6b7c8d1'', candidate = ''64b7f0c2a1d3e4f5a6b7c8d2'',
      scheduledFor = 1700000000000, duration = 60,
      room_jobRole = ''web-developer'', room_experienceLevel = ''mid-level'',
      roomLink = ''/interview-room/3f2b8c1e-token'', status = scheduled, room_notes = None\<rparr>"

definition demo_env :: server_env where
  "demo_env = \<lparr>now = 1700000060000, isValid = (\<lambda>s. length s = 24)\<rparr>"

definition demo_request :: request where
  "demo_request = \<lparr>credentials = NoToken, param = ''3f2b8c1e-token''\<rparr>"

section \<open>Sample inputs for the page and the session\<close>

text \<open>A room whose stored duration is 0, and the options the room page starts a session with.\<close>

definition zero_duration_room :: InterviewRoom where
  "zero_duration_room = demo_room\<lparr>duration := 0\<rparr>"

text \<open>A room whose stored duration puts the end of the window outside the range of dates.\<close>

definition endless_room :: InterviewRoom where
  "endless_room = demo_room\<lparr>duration := - 100000000000000\<rparr>"

definition room_options :: InterviewStartOptions where
  "room_options =
     \<lparr>opt_mediaStream = Some (MediaStream 1), opt_jobRole = Some web_developer,
      opt_experienceLevel = Some mid_level, opt_interviewId = Some ''64b7f0c2a1d3e4f5a6b7c8d9'',
      durationInSeconds = Some 900, opt_isHrScheduled = None\<rparr>"

text \<open>A questions endpoint that is down, and a supply of question ids.\<close>

definition failing_gateway :: "questions_request \<Rightarrow> string list option http_reply" where
  "failing_gateway req = HttpError 500 ''Error fetching questions from evaluator service''"

definition sample_ids :: "nat \<Rightarrow> string" where
  "sample_ids k = replicate (Suc k) CHR ''q''"

section \<open>Aggregation: the specification's wording, and sample sessions\<close>

text \<open>
  Deduplication as the specification words it, keeping the first occurrence of every
  element and dropping the later ones. It is compared with \<^const>\<open>new_Set\<close> below.
\<close>

fun dedupe_first_seen :: "'a list \<Rightarrow> 'a list" where
  "dedupe_first_seen [] = []"
| "dedupe_first_seen (x # xs) = x # dedupe_first_seen (filter (\<lambda>y. y \<noteq> x) xs)"

text \<open>
  A session with three questions and recorded answers for the first and the third, scored
  90 and 70.
\<close>

definition example_questions :: "InterviewQuestion list" where
  "example_questions =
     [\<lparr>question_id = ''Q1'', question_text = ''Explain the concept of closures in JavaScript.'',
       question_audioUrl = None\<rparr>,
      \<lparr>question_id = ''Q2'', question_text = ''Describe your experience with RESTful APIs.'',
       question_audioUrl = None\<rparr>,
      \<lparr>question_id = ''Q3'', question_text = ''How do you optimize website performance?'',
       question_audioUrl = None\<rparr>]"

definition example_answers :: "InterviewAnswer list" where
  "example_answers =
     [\<lparr>questionId = ''Q1'', answer_text = js ''A closure keeps its scope.'', audioUrl = None,
       score = Some 90, feedback = Some ''Clear.'',
       strengths = Some [''clarity'', '''', ''examples''], weaknesses = Some [''depth''],
       questionText = None\<rparr>,
      \<lparr>questionId = ''Q3'', answer_text = js ''Measure, then cache and split.'', audioUrl = None,
       score = Some 70, feedback = Some ''Reasonable.'',
       strengths = Some [''examples'', ''structure''], weaknesses = Some [],
       questionText = None\<rparr>]"

definition example_session :: session where
  "example_session =
     initial_session\<lparr>config := Some \<lparr>jobRole = web_developer, experienceLevel = mid_level\<rparr>,
                      questions := example_questions, answers := example_answers,
                      isInterviewInProgress := True, mediaStream := Some (MediaStream 1)\<rparr>"








text \<open>
  A session started without role or level, answers shorter and longer than the gate, a
  scoring endpoint that is down, an evaluator whose score is the double nearest 0.015,
  and a scoring endpoint that answers with the score 2 and that evaluator's feedback.
\<close>

definition no_options :: InterviewStartOptions where
  "no_options =
     \<lparr>opt_mediaStream = None, opt_jobRole = None, opt_experienceLevel = None,
      opt_interviewId = None, durationInSeconds = None, opt_isHrScheduled = None\<rparr>"

definition unconfigured_session :: session where
  "unconfigured_session =
     snd (startInterview failing_gateway (Inl ''NotAllowedError'') sample_ids initial_session
            no_options)"

definition short_answer :: answerData where
  "short_answer =
     \<lparr>ad_questionId = ''q'', ad_text = js '' Yes. '', ad_audioUrl = None,
      ad_questionText = None\<rparr>"

definition long_answer :: answerData where
  "long_answer =
     \<lparr>ad_questionId = ''Q2'', ad_text = js ''REST maps resources to URLs.'', ad_audioUrl = None,
      ad_questionText = None\<rparr>"

definition scoring_down :: "analyze_request \<Rightarrow> analysis http_reply" where
  "scoring_down req = NetworkFailure"

definition sample_evaluator :: "analyze_request \<Rightarrow> evaluator_reply" where
  "sample_evaluator req =
     Evaluation (Finite (1080863910568919 / 2 ^ 56)) ''Accurate and concise.''"

definition relayed_scorer :: "analyze_request \<Rightarrow> analysis http_reply" where
  "relayed_scorer req =
     HttpOk \<lparr>an_score = 2, an_feedback = ''Accurate and concise.'',
            an_strengths = None, an_weaknesses = None\<rparr>"

definition long_answer_request :: analyze_request where
  "long_answer_request =
     \<lparr>req_question = ''Explain the concept of closures in JavaScript.'',
      req_answer = js ''REST maps resources to URLs.'',
      req_jobRole = Some web_developer, req_experienceLevel = Some mid_level\<rparr>"

section \<open>The room store\<close>

lemma never_reopened_refl: "never_reopened db db"
  by (simp add: never_reopened_def list_all2_same)

lemma never_reopened_trans:
  "never_reopened a b \<Longrightarrow> never_reopened b c \<Longrightarrow> never_reopened a c"
  unfolding never_reopened_def
  by (auto simp: list_all2_conv_all_nth) metis

lemma save_ids: "map room_id (save r' db) = map room_id db"
  by (induction db) auto

lemma save_unique: "unique_ids db \<Longrightarrow> unique_ids (save r' db)"
  by (simp add: unique_ids_def save_ids)

lemma findOne_SomeD: "findOne P db = Some r \<Longrightarrow> r \<in> set db \<and> P r"
  by (auto simp: findOne_def find_Some_iff)

lemma save_never_reopened:
  "unique_ids db \<Longrightarrow> r \<in> set db \<Longrightarrow> room_id r' = room_id r \<Longrightarrow>
   status r = scheduled \<or> status r' = status r \<Longrightarrow> never_reopened db (save r' db)"
proof (induction db)
  case Nil
  then show ?case by simp
next
  case (Cons d db)
  show ?case
  proof (cases "room_id d = room_id r'")
    case True
    with Cons.prems have "d = r"
      by (auto simp: unique_ids_def image_iff)
    with True Cons.prems show ?thesis
      by (auto simp: never_reopened_def list_all2_same)
  next
    case False
    with Cons.prems have "r \<in> set db" by auto
    moreover from Cons.prems have "unique_ids db" by (simp add: unique_ids_def)
    ultimately have "never_reopened db (save r' db)"
      using Cons.IH Cons.prems by blast
    with False show ?thesis by (simp add: never_reopened_def)
  qed
qed

lemma save_mem:
  "r \<in> set db \<Longrightarrow> room_id r' = room_id r \<Longrightarrow> r' \<in> set (save r' db)"
  by (induction db) auto

lemma find_save:
  "unique_ids db \<Longrightarrow> find P db = Some r \<Longrightarrow> P r' \<Longrightarrow> room_id r' = room_id r \<Longrightarrow>
   find P (save r' db) = Some r'"
proof (induction db)
  case Nil
  then show ?case by simp
next
  case (Cons d db)
  show ?case
  proof (cases "P d")
    case True
    with Cons.prems show ?thesis by simp
  next
    case False
    with Cons.prems have f: "find P db = Some r" by simp
    then have "r \<in> set db" by (auto simp: find_Some_iff)
    with Cons.prems have "room_id d \<noteq> room_id r"
      by (auto simp: unique_ids_def)
    moreover from Cons.prems have "unique_ids db" by (simp add: unique_ids_def)
    ultimately show ?thesis
      using Cons.IH Cons.prems f False by simp
  qed
qed

lemma find_id_save_None:
  "find (\<lambda>d. room_id d = p) db = None \<Longrightarrow> find (\<lambda>d. room_id d = p) (save r' db) = None"
proof -
  assume "find (\<lambda>d. room_id d = p) db = None"
  then have "p \<notin> set (map room_id db)" by (auto simp: find_None_iff)
  then have "p \<notin> set (map room_id (save r' db))" by (simp add: save_ids)
  then show ?thesis by (auto simp: find_None_iff)
qed

lemma lookup_save:
  assumes u: "unique_ids db" and l: "lookup_id_or_token env p db = Some r"
    and i: "room_id r' = room_id r" and k: "roomLink r' = roomLink r"
  shows "lookup_id_or_token env p (save r' db) = Some r'"
proof (cases "isValid env p \<and> find (\<lambda>d. room_id d = p) db \<noteq> None")
  case True
  with l have f: "find (\<lambda>d. room_id d = p) db = Some r"
    by (auto simp: lookup_id_or_token_def findOne_def)
  then have "room_id r = p" by (auto simp: find_Some_iff)
  with i have "find (\<lambda>d. room_id d = p) (save r' db) = Some r'"
    using find_save [OF u f] by simp
  with True show ?thesis
    by (simp add: lookup_id_or_token_def findOne_def)
next
  case False
  let ?L = "\<lambda>d. roomLink d = ''/interview-room/'' @ p"
  from False l have f: "find ?L db = Some r"
    by (auto simp: lookup_id_or_token_def findOne_def split: if_splits)
  then have "?L r" by (auto simp: find_Some_iff)
  with k have "?L r'" by simp
  then have g: "find ?L (save r' db) = Some r'"
    using find_save [OF u f _ i] by simp
  from False have "isValid env p \<Longrightarrow> find (\<lambda>d. room_id d = p) (save r' db) = None"
    by (simp add: find_id_save_None)
  with g show ?thesis
    by (simp add: lookup_id_or_token_def findOne_def)
qed

section \<open>Every route leaves terminal rooms alone\<close>

lemma status_update_never_reopened:
  "unique_ids db \<Longrightarrow> findOne P db = Some r \<Longrightarrow> status r = scheduled \<Longrightarrow>
   never_reopened db (save (r\<lparr>status := s\<rparr>) db)"
  by (rule save_never_reopened [where r = r]) (auto dest: findOne_SomeD)

lemma lookup_SomeD: "lookup_id_or_token env p db = Some r \<Longrightarrow> r \<in> set db"
  by (auto simp: lookup_id_or_token_def Let_def dest: findOne_SomeD split: if_splits option.splits)

lemma put_cancel_never_reopened:
  "unique_ids db \<Longrightarrow> never_reopened db (snd (put_cancel env db req))"
  by (auto simp: put_cancel_def Let_def never_reopened_refl status_update_never_reopened
      split: sum.splits option.splits)

lemma put_complete_never_reopened:
  "unique_ids db \<Longrightarrow> never_reopened db (snd (put_complete env db req))"
  by (auto simp: put_complete_def Let_def never_reopened_refl status_update_never_reopened
      split: sum.splits option.splits)

lemma put_id_auto_complete_never_reopened:
  "unique_ids db \<Longrightarrow> never_reopened db (snd (put_id_auto_complete env db req))"
  by (auto simp: put_id_auto_complete_def findById_def Let_def never_reopened_refl
      status_update_never_reopened split: sum.splits option.splits if_splits)

lemma put_auto_complete_never_reopened:
  "unique_ids db \<Longrightarrow> never_reopened db (snd (put_auto_complete env db req))"
  by (auto simp: put_auto_complete_def Let_def never_reopened_refl
      intro!: save_never_reopened dest: lookup_SomeD split: sum.splits option.splits)

lemma put_room_complete_never_reopened:
  "unique_ids db \<Longrightarrow> never_reopened db (snd (put_room_complete env db req))"
  by (auto simp: put_room_complete_def findById_def Let_def never_reopened_refl
      status_update_never_reopened split: sum.splits option.splits if_splits)

lemma post_interview_results_never_reopened:
  assumes u: "unique_ids db"
  shows "never_reopened db (snd (post_interview_results db req))"
proof -
  have notes_step: "never_reopened db (save d2 db1)"
    if "never_reopened db db1" "unique_ids db1" "d1 \<in> set db1"
      "room_id d2 = room_id d1" "status d2 = status d1" for db1 d1 d2
    using that save_never_reopened [of db1 d1 d2] never_reopened_trans by blast
  show ?thesis
  proof (cases "authenticateToken (res_credentials req)")
    case (Inl r)
    then show ?thesis by (simp add: post_interview_results_def never_reopened_refl)
  next
    case (Inr usr)
    show ?thesis
    proof (cases "interviewId req = None \<or> interviewId req = Some []")
      case True
      with Inr show ?thesis
        by (auto simp: post_interview_results_def never_reopened_refl split: option.splits)
    next
      case False
      then obtain iid where iid: "interviewId req = Some iid" "iid \<noteq> []" by auto
      show ?thesis
      proof (cases "findOne (\<lambda>d. roomLink d = ''/interview-room/'' @ iid) db")
        case None
        with Inr iid show ?thesis
          by (simp add: post_interview_results_def never_reopened_refl)
      next
        case (Some doc)
        then have mem: "doc \<in> set db" by (auto dest: findOne_SomeD)
        show ?thesis
        proof (cases "status doc = scheduled")
          case True
          let ?d = "doc\<lparr>status := completed\<rparr>"
          have a: "never_reopened db (save ?d db)"
            using u Some True by (rule status_update_never_reopened)
          have b: "unique_ids (save ?d db)" using u by (rule save_unique)
          have c: "?d \<in> set (save ?d db)" using mem by (simp add: save_mem)
          have "never_reopened db (save (?d\<lparr>room_notes := n\<rparr>) (save ?d db))" for n
            using a b c by (rule notes_step) simp_all
          with a Inr iid Some True show ?thesis
            by (auto simp: post_interview_results_def Let_def split: option.splits)
        next
          case False
          have "never_reopened db (save (doc\<lparr>room_notes := n\<rparr>) db)" for n
            using never_reopened_refl u mem by (rule notes_step) simp_all
          with Inr iid Some False show ?thesis
            by (auto simp: post_interview_results_def Let_def never_reopened_refl
                split: option.splits)
        qed
      qed
    qed
  qed
qed

lemma unique_mem:
  "unique_ids db \<Longrightarrow> r \<in> set db \<Longrightarrow> r' \<in> set db \<Longrightarrow> room_id r' = room_id r \<Longrightarrow> r' = r"
  by (auto simp: unique_ids_def distinct_map inj_on_def)

lemma findOne_terminal:
  assumes "unique_ids db" "r \<in> set db" "status r \<noteq> scheduled"
    and "findOne P db = Some r'" "room_id r' = room_id r"
  shows "status r' \<noteq> scheduled"
proof -
  from assms(4) have "r' \<in> set db" by (simp add: findOne_SomeD)
  with assms have "r' = r" by (simp add: unique_mem)
  with assms(3) show ?thesis by simp
qed

lemma findOne_cancel_filter:
  "findOne (\<lambda>d. room_id d = p \<and> Q d) db = Some r' \<Longrightarrow> room_id r' = p"
  by (auto dest: findOne_SomeD)

lemma put_cancel_terminal:
  assumes "unique_ids db" "r \<in> set db" "status r \<noteq> scheduled" "room_id r = param req"
  shows "snd (put_cancel env db req) = db \<and> code (fst (put_cancel env db req)) \<noteq> 200"
proof -
  have "status r' \<noteq> scheduled"
    if "findOne (\<lambda>d. room_id d = param req \<and> hr d = userId usr) db = Some r'" for r' usr
    using that assms findOne_terminal [OF assms(1-3) that] findOne_cancel_filter [OF that]
    by simp
  then show ?thesis
    by (auto simp: put_cancel_def authenticateToken_def requireHR_def Let_def
        split: credentials.splits option.splits)
qed

lemma put_complete_terminal:
  assumes "unique_ids db" "r \<in> set db" "status r \<noteq> scheduled" "room_id r = param req"
  shows "snd (put_complete env db req) = db \<and> code (fst (put_complete env db req)) \<noteq> 200"
proof -
  have "status r' \<noteq> scheduled"
    if "findOne (\<lambda>d. room_id d = param req
                      \<and> (hr d = userId usr \<or> candidate d = userId usr)) db = Some r'" for r' usr
    using that assms findOne_terminal [OF assms(1-3) that] findOne_cancel_filter [OF that]
    by simp
  then show ?thesis
    by (auto simp: put_complete_def authenticateToken_def Let_def
        split: credentials.splits option.splits)
qed

lemma findOne_exists: "r \<in> set db \<Longrightarrow> P r \<Longrightarrow> \<exists>r'. findOne P db = Some r'"
  by (cases "findOne P db") (auto simp: findOne_def find_None_iff)

lemma put_cancel_guard:
  assumes "unique_ids db" "r \<in> set db" "status r \<noteq> scheduled" "room_id r = param req"
    and "credentials req = Verified usr" "isValid env (param req)" "isValid env (userId usr)"
    and "role usr = ''hr''" "hr r = userId usr"
  shows "put_cancel env db req = (Response 400 (Message ''Interview cannot be cancelled''), db)"
proof -
  let ?P = "\<lambda>d. room_id d = param req \<and> hr d = userId usr"
  from assms obtain r' where f: "findOne ?P db = Some r'"
    using findOne_exists [of r db ?P] by auto
  then have "room_id r' = room_id r" using assms(4) by (auto dest: findOne_SomeD)
  with f assms have "status r' \<noteq> scheduled" by (simp add: findOne_terminal)
  with f assms show ?thesis
    by (simp add: put_cancel_def authenticateToken_def requireHR_def)
qed

lemma put_complete_guard:
  assumes "unique_ids db" "r \<in> set db" "status r \<noteq> scheduled" "room_id r = param req"
    and "credentials req = Verified usr" "isValid env (param req)" "isValid env (userId usr)"
    and "hr r = userId usr \<or> candidate r = userId usr"
  shows "put_complete env db req = (Response 400 (Message ''Interview cannot be completed''), db)"
proof -
  let ?P = "\<lambda>d. room_id d = param req \<and> (hr d = userId usr \<or> candidate d = userId usr)"
  from assms obtain r' where f: "findOne ?P db = Some r'"
    using findOne_exists [of r db ?P] by auto
  then have "room_id r' = room_id r" using assms(4) by (auto dest: findOne_SomeD)
  with f assms have "status r' \<noteq> scheduled" by (simp add: findOne_terminal)
  with f assms show ?thesis
    by (simp add: put_complete_def authenticateToken_def)
qed

section \<open>The room lifecycle\<close>

text \<open>
  C1. The claim: on a room that is already completed or cancelled, auto-complete
  (\<^verbatim>\<open>PUT /api/interviews/auto-complete/{idOrToken}\<close>) succeeds as a no-op, so that two
  calls in a row both succeed. The route answers otherwise: the first call on a scheduled
  room succeeds with 200, the second is rejected with 400.
\<close>

theorem auto_complete_twice_counterexample:
  "code (fst (put_auto_complete demo_env [demo_room] demo_request)) = 200
   \<and> fst (put_auto_complete demo_env
            (snd (put_auto_complete demo_env [demo_room] demo_request)) demo_request)
       = Response 400 (Message ''Interview is already completed'')"
  by (simp add: put_auto_complete_def lookup_id_or_token_def findOne_def demo_env_def
      demo_room_def demo_request_def Let_def)

text \<open>
  C1, as the route behaves: once the parameter resolves to a room, a room that has left
  \<open>scheduled\<close> is answered with 400 and the message \<^verbatim>\<open>Interview is already <status>\<close>,
  and the collection is untouched; on a scheduled room the first call answers 200 and a
  second call, at any later time, answers 400 and changes nothing more.
\<close>

theorem auto_complete_on_terminal_room:
  assumes u: "unique_ids db" and l: "lookup_id_or_token env (param req) db = Some r"
  shows "(status r \<noteq> scheduled \<longrightarrow>
            put_auto_complete env db req
              = (Response 400 (Message (''Interview is already '' @ status_text (status r))), db))
       \<and> (status r = scheduled \<longrightarrow>
            code (fst (put_auto_complete env db req)) = 200
          \<and> put_auto_complete (env\<lparr>now := t\<rparr>) (snd (put_auto_complete env db req)) req
              = (Response 400 (Message ''Interview is already completed''),
                 snd (put_auto_complete env db req)))"
proof (intro conjI impI)
  assume "status r \<noteq> scheduled"
  with l show "put_auto_complete env db req
      = (Response 400 (Message (''Interview is already '' @ status_text (status r))), db)"
    by (simp add: put_auto_complete_def)
next
  assume s: "status r = scheduled"
  with l show "code (fst (put_auto_complete env db req)) = 200"
    by (simp add: put_auto_complete_def Let_def)
  let ?r = "r\<lparr>status := completed\<rparr>"
  from l s have db1: "snd (put_auto_complete env db req) = save ?r db"
    by (simp add: put_auto_complete_def Let_def)
  have "lookup_id_or_token env (param req) (save ?r db) = Some ?r"
    using u l by (rule lookup_save) simp_all
  then have "lookup_id_or_token (env\<lparr>now := t\<rparr>) (param req) (save ?r db) = Some ?r"
    by (simp add: lookup_id_or_token_def)
  then show "put_auto_complete (env\<lparr>now := t\<rparr>) (snd (put_auto_complete env db req)) req
      = (Response 400 (Message ''Interview is already completed''),
         snd (put_auto_complete env db req))"
    unfolding db1 by (simp add: put_auto_complete_def)
qed

theorem auto_complete_on_terminal_room_witness:
  "unique_ids [demo_room\<lparr>status := cancelled\<rparr>]
   \<and> lookup_id_or_token demo_env (param demo_request) [demo_room\<lparr>status := cancelled\<rparr>]
       = Some (demo_room\<lparr>status := cancelled\<rparr>)
   \<and> put_auto_complete demo_env [demo_room\<lparr>status := cancelled\<rparr>] demo_request
       = (Response 400 (Message ''Interview is already cancelled''),
          [demo_room\<lparr>status := cancelled\<rparr>])"
proof -
  have u: "unique_ids [demo_room\<lparr>status := cancelled\<rparr>]"
    by (simp add: unique_ids_def)
  have l: "lookup_id_or_token demo_env (param demo_request) [demo_room\<lparr>status := cancelled\<rparr>]
       = Some (demo_room\<lparr>status := cancelled\<rparr>)"
    by (simp add: lookup_id_or_token_def findOne_def demo_env_def demo_request_def demo_room_def)
  show ?thesis
    using u l auto_complete_on_terminal_room [OF u l] by simp
qed

text \<open>
  C2. Status transitions are monotonic. For a room that is completed or cancelled, cancel
  and complete addressed to it never succeed and leave the collection as it is; when the
  request gets as far as the room (a verified caller who is party to it, ids that cast)
  the answer is the 400 of the status guard. And no route (cancel, complete, complete by
  room, both auto-completes, result submission) changes the status of a room that has left
  \<open>scheduled\<close>, so none sets it back to \<open>scheduled\<close>.
\<close>

theorem room_status_monotonic:
  assumes u: "unique_ids db"
  shows
    "(\<forall>r \<in> set db. status r \<noteq> scheduled \<and> room_id r = param req \<longrightarrow>
        snd (put_cancel env db req) = db \<and> code (fst (put_cancel env db req)) \<noteq> 200
      \<and> snd (put_complete env db req) = db \<and> code (fst (put_complete env db req)) \<noteq> 200
      \<and> (\<forall>usr. credentials req = Verified usr \<and> isValid env (param req) \<and> isValid env (userId usr) \<longrightarrow>
            (role usr = ''hr'' \<and> hr r = userId usr \<longrightarrow>
               fst (put_cancel env db req) = Response 400 (Message ''Interview cannot be cancelled''))
          \<and> (hr r = userId usr \<or> candidate r = userId usr \<longrightarrow>
               fst (put_complete env db req) = Response 400 (Message ''Interview cannot be completed''))))
     \<and> never_reopened db (snd (put_cancel env db req))
     \<and> never_reopened db (snd (put_complete env db req))
     \<and> never_reopened db (snd (put_room_complete env db req))
     \<and> never_reopened db (snd (put_id_auto_complete env db req))
     \<and> never_reopened db (snd (put_auto_complete env db req))
     \<and> never_reopened db (snd (post_interview_results db rreq))"
proof (intro conjI ballI impI allI)
  fix r assume r: "r \<in> set db" "status r \<noteq> scheduled \<and> room_id r = param req"
  show "snd (put_cancel env db req) = db" "code (fst (put_cancel env db req)) \<noteq> 200"
    using put_cancel_terminal [OF u r(1)] r(2) by simp_all
  show "snd (put_complete env db req) = db" "code (fst (put_complete env db req)) \<noteq> 200"
    using put_complete_terminal [OF u r(1)] r(2) by simp_all
  fix usr
  assume c: "credentials req = Verified usr \<and> isValid env (param req) \<and> isValid env (userId usr)"
  { assume "role usr = ''hr'' \<and> hr r = userId usr"
    with c r show "fst (put_cancel env db req) = Response 400 (Message ''Interview cannot be cancelled'')"
      using put_cancel_guard [OF u r(1), of req usr env] by simp }
  { assume "hr r = userId usr \<or> candidate r = userId usr"
    with c r show "fst (put_complete env db req) = Response 400 (Message ''Interview cannot be completed'')"
      using put_complete_guard [OF u r(1), of req usr env] by simp }
qed (simp_all add: u put_cancel_never_reopened put_complete_never_reopened
    put_room_complete_never_reopened put_id_auto_complete_never_reopened
    put_auto_complete_never_reopened post_interview_results_never_reopened)

theorem room_status_monotonic_witness:
  "unique_ids [demo_room\<lparr>status := completed\<rparr>]
   \<and> fst (put_cancel demo_env [demo_room\<lparr>status := completed\<rparr>]
        \<lparr>credentials = Verified \<lparr>userId = ''64b7f0c2a1d3e4f5a6b7c8d1'', role = ''hr''\<rparr>,
         param = ''64b7f0c2a1d3e4f5a6b7c8d9''\<rparr>)
       = Response 400 (Message ''Interview cannot be cancelled'')
   \<and> snd (put_cancel demo_env [demo_room\<lparr>status := completed\<rparr>]
        \<lparr>credentials = Verified \<lparr>userId = ''64b7f0c2a1d3e4f5a6b7c8d1'', role = ''hr''\<rparr>,
         param = ''64b7f0c2a1d3e4f5a6b7c8d9''\<rparr>)
       = [demo_room\<lparr>status := completed\<rparr>]
   \<and> never_reopened [demo_room\<lparr>status := completed\<rparr>]
        (snd (put_room_complete demo_env [demo_room\<lparr>status := completed\<rparr>]
          \<lparr>credentials = Verified \<lparr>userId = ''64b7f0c2a1d3e4f5a6b7c8d1'', role = ''hr''\<rparr>,
           param = ''64b7f0c2a1d3e4f5a6b7c8d9''\<rparr>))"
proof -
  have u: "unique_ids [demo_room\<lparr>status := completed\<rparr>]"
    by (simp add: unique_ids_def)
  show ?thesis
    using u room_status_monotonic [OF u, where env = demo_env
        and req = "\<lparr>credentials = Verified \<lparr>userId = ''64b7f0c2a1d3e4f5a6b7c8d1'', role = ''hr''\<rparr>,
                    param = ''64b7f0c2a1d3e4f5a6b7c8d9''\<rparr>"]
    by (simp add: demo_env_def demo_room_def)
qed

text \<open>
  C9. When \<^verbatim>\<open>PUT /api/interviews/auto-complete/{idOrToken}\<close> resolves its parameter, by
  id or by token, to a scheduled room, it answers 200 and stores the room as completed,
  whatever the server's clock says; the room's end time is never consulted. The older
  \<^verbatim>\<open>PUT /:id/auto-complete\<close> refuses with 400 while the clock is not past the end time, and
  also when the start or the end time is no valid date; it agrees with the newer route
  once the clock is past an end time that is a valid date.
\<close>

theorem auto_complete_ignores_clock:
  assumes l: "lookup_id_or_token env (param req) db = Some r" and s: "status r = scheduled"
  shows "put_auto_complete env db req
           = (Response 200 (MessageRoom ''Interview automatically completed''
                              (r\<lparr>status := completed\<rparr>)),
              save (r\<lparr>status := completed\<rparr>) db)
       \<and> r\<lparr>status := completed\<rparr> \<in> set (snd (put_auto_complete env db req))
       \<and> put_auto_complete (env\<lparr>now := t\<rparr>) db req = put_auto_complete env db req
       \<and> (findById env (param req) db = Inr (Some r)
            \<and> now env \<le> scheduledFor r + duration r * 60000 \<longrightarrow>
              put_id_auto_complete env db req
                = (Response 400 (Message ''Interview time has not ended yet''), db))
       \<and> (findById env (param req) db = Inr (Some r)
            \<and> (\<bar>scheduledFor r\<bar> > 8640000000000000
                 \<or> \<bar>scheduledFor r + duration r * 60000\<bar> > 8640000000000000) \<longrightarrow>
              put_id_auto_complete env db req
                = (Response 400 (Message ''Interview time has not ended yet''), db))
       \<and> (findById env (param req) db = Inr (Some r)
            \<and> \<bar>scheduledFor r\<bar> \<le> 8640000000000000
            \<and> \<bar>scheduledFor r + duration r * 60000\<bar> \<le> 8640000000000000
            \<and> now env > scheduledFor r + duration r * 60000 \<longrightarrow>
              put_id_auto_complete env db req = put_auto_complete env db req)"
proof -
  have a: "put_auto_complete env db req
           = (Response 200 (MessageRoom ''Interview automatically completed''
                              (r\<lparr>status := completed\<rparr>)),
              save (r\<lparr>status := completed\<rparr>) db)"
    using l s by (simp add: put_auto_complete_def Let_def)
  have b: "r\<lparr>status := completed\<rparr> \<in> set (snd (put_auto_complete env db req))"
    using lookup_SomeD [OF l] by (simp add: a save_mem)
  have c: "put_auto_complete (env\<lparr>now := t\<rparr>) db req = put_auto_complete env db req"
    by (simp add: put_auto_complete_def lookup_id_or_token_def)
  have d: "put_id_auto_complete env db req
        = (Response 400 (Message ''Interview time has not ended yet''), db)"
    if "findById env (param req) db = Inr (Some r)"
      "now env \<le> scheduledFor r + duration r * 60000"
    using that s
    by (simp add: put_id_auto_complete_def Let_def new_Date_def plus_milliseconds_def later_def)
  have e: "put_id_auto_complete env db req
        = (Response 400 (Message ''Interview time has not ended yet''), db)"
    if "findById env (param req) db = Inr (Some r)"
      "\<bar>scheduledFor r\<bar> > 8640000000000000
         \<or> \<bar>scheduledFor r + duration r * 60000\<bar> > 8640000000000000"
    using that s
    by (auto simp: put_id_auto_complete_def Let_def new_Date_def plus_milliseconds_def later_def)
  have f: "put_id_auto_complete env db req = put_auto_complete env db req"
    if "findById env (param req) db = Inr (Some r)"
      "\<bar>scheduledFor r\<bar> \<le> 8640000000000000"
      "\<bar>scheduledFor r + duration r * 60000\<bar> \<le> 8640000000000000"
      "now env > scheduledFor r + duration r * 60000"
    using that s
    by (simp add: a put_id_auto_complete_def Let_def new_Date_def plus_milliseconds_def later_def)
  from a b c d e f show ?thesis by blast
qed

theorem auto_complete_ignores_clock_witness:
  "lookup_id_or_token (demo_env\<lparr>now := 1700000000001\<rparr>)
       (param (demo_request\<lparr>param := room_id demo_room\<rparr>)) [demo_room]
      = Some demo_room
   \<and> status demo_room = scheduled
   \<and> findById (demo_env\<lparr>now := 1700000000001\<rparr>)
       (param (demo_request\<lparr>param := room_id demo_room\<rparr>)) [demo_room]
      = Inr (Some demo_room)
   \<and> now (demo_env\<lparr>now := 1700000000001\<rparr>) \<le> scheduledFor demo_room + duration demo_room * 60000
   \<and> status (hd (snd (put_auto_complete (demo_env\<lparr>now := 1700000000001\<rparr>) [demo_room]
                        (demo_request\<lparr>param := room_id demo_room\<rparr>))))
       = completed
   \<and> code (fst (put_auto_complete (demo_env\<lparr>now := 1700000000001\<rparr>) [demo_room]
                   (demo_request\<lparr>param := room_id demo_room\<rparr>))) = 200
   \<and> put_id_auto_complete (demo_env\<lparr>now := 1700000000001\<rparr>) [demo_room]
         (demo_request\<lparr>param := room_id demo_room\<rparr>)
       = (Response 400 (Message ''Interview time has not ended yet''), [demo_room])"
proof -
  have l: "lookup_id_or_token (demo_env\<lparr>now := 1700000000001\<rparr>)
       (param (demo_request\<lparr>param := room_id demo_room\<rparr>)) [demo_room]
      = Some demo_room"
    by (simp add: lookup_id_or_token_def findOne_def demo_env_def demo_request_def demo_room_def)
  have s: "status demo_room = scheduled"
    by (simp add: demo_room_def)
  have f: "findById (demo_env\<lparr>now := 1700000000001\<rparr>)
       (param (demo_request\<lparr>param := room_id demo_room\<rparr>)) [demo_room]
      = Inr (Some demo_room)"
    by (simp add: findById_def findOne_def demo_env_def demo_request_def demo_room_def)
  have n: "now (demo_env\<lparr>now := 1700000000001\<rparr>)
      \<le> scheduledFor demo_room + duration demo_room * 60000"
    by (simp add: demo_room_def)
  show ?thesis
    using l s f n auto_complete_ignores_clock [OF l s]
    by (simp add: demo_room_def)
qed
section \<open>Rounding to double precision\<close>

text \<open>
  The binade found by the search is the one that holds the number; the value stored for
  a number is within half a unit in the last place of it; whole numbers below
  \<open>2 ^ 53\<close> are stored as they are.
\<close>

lemma binade_from_ge: "e \<le> binade_from n e x"
proof (induction n arbitrary: e)
  case 0
  then show ?case by simp
next
  case (Suc n)
  have "e + 1 \<le> binade_from n (e + 1) x" by (rule Suc.IH)
  then show ?case by simp
qed

lemma binade_from_le: "x < 2 powi (k + 1) \<Longrightarrow> e \<le> k \<Longrightarrow> binade_from n e x \<le> k"
proof (induction n arbitrary: e)
  case 0
  then show ?case by simp
next
  case (Suc n)
  show ?case
  proof (cases "x < 2 powi (e + 1)")
    case True
    with Suc.prems show ?thesis by simp
  next
    case False
    with Suc.prems have "(2::real) powi (e + 1) < 2 powi (k + 1)" by simp
    then have "e + 1 < k + 1"
      by (smt (verit) power_int_increasing)
    then have "e + 1 \<le> k" by simp
    with Suc.IH [OF Suc.prems(1)] False show ?thesis by simp
  qed
qed

lemma binade_from_lower:
  "2 powi b \<le> x \<Longrightarrow> b \<le> e + int n \<Longrightarrow> e \<le> b \<Longrightarrow> b \<le> binade_from n e x"
proof (induction n arbitrary: e)
  case 0
  then show ?case by simp
next
  case (Suc n)
  show ?case
  proof (cases "e = b")
    case True
    then show ?thesis using binade_from_ge [of e "Suc n" x] by simp
  next
    case False
    with Suc.prems have l: "e + 1 \<le> b" by simp
    then have "(2::real) powi (e + 1) \<le> 2 powi b" by (simp add: power_int_increasing)
    with Suc.prems have "\<not> x < 2 powi (e + 1)" by simp
    moreover from Suc.prems have "b \<le> (e + 1) + int n" by simp
    ultimately show ?thesis using Suc.IH [OF Suc.prems(1) _ l] by simp
  qed
qed

lemma binade_ge: "- 1023 \<le> binade x"
  by (simp add: binade_def binade_from_ge)

lemma binade_le: "\<bar>x\<bar> < 2 powi (k + 1) \<Longrightarrow> - 1023 \<le> k \<Longrightarrow> binade x \<le> k"
  by (simp add: binade_def binade_from_le)

lemma binade_eq:
  assumes "2 powi b \<le> \<bar>x\<bar>" "\<bar>x\<bar> < 2 powi (b + 1)" "- 1023 \<le> b" "b \<le> 1023"
  shows "binade x = b"
proof -
  have "binade x \<le> b" using assms by (simp add: binade_le)
  moreover have "b \<le> binade x"
    unfolding binade_def using assms by (intro binade_from_lower) simp_all
  ultimately show ?thesis by simp
qed

lemma round_half_even_int [simp]: "round_half_even (of_int k) = k"
  by (simp add: round_half_even_def)

lemma round_half_even_error: "\<bar>of_int (round_half_even y) - y\<bar> \<le> 1 / 2"
  unfolding round_half_even_def Let_def
  by (auto simp: abs_le_iff)

lemma round_half_even_nonneg: "0 \<le> y \<Longrightarrow> 0 \<le> round_half_even y"
  unfolding round_half_even_def Let_def by (auto simp: le_floor_iff)

lemma quantum_bounds: "- 1074 \<le> quantum x"
  by (simp add: quantum_def)

lemma quantum_le:
  assumes "\<bar>x\<bar> < 2 powi (k + 1)" "- 1022 \<le> k"
  shows "quantum x \<le> k - 52"
proof -
  from assms have "binade x \<le> k" by (simp add: binade_le)
  with assms show ?thesis by (simp add: quantum_def)
qed

lemma rounded_error: "\<bar>rounded x - x\<bar> \<le> 2 powi quantum x / 2"
proof -
  let ?s = "(2::real) powi quantum x"
  have s: "0 < ?s" by (simp add: zero_less_power_int)
  have "rounded x - x = (of_int (round_half_even (x / ?s)) - x / ?s) * ?s"
    using s by (simp add: rounded_def field_simps)
  then have "\<bar>rounded x - x\<bar> = \<bar>of_int (round_half_even (x / ?s)) - x / ?s\<bar> * ?s"
    using s by (simp add: abs_mult)
  also have "\<dots> \<le> (1 / 2) * ?s"
    using s round_half_even_error [of "x / ?s"] by (intro mult_right_mono) simp_all
  finally show ?thesis by simp
qed

lemma rounded_nonneg: "0 \<le> x \<Longrightarrow> 0 \<le> rounded x"
  unfolding rounded_def
  by (intro mult_nonneg_nonneg) (simp_all add: round_half_even_nonneg zero_less_power_int less_imp_le)

lemma double_bounded:
  assumes "0 \<le> x" and "x < 2 ^ k" and "k \<le> 1023"
  shows "double x = Finite (rounded x) \<and> 0 \<le> rounded x
         \<and> \<bar>rounded x - x\<bar> \<le> 2 powi (int k - 53) / 2"
proof -
  from assms have "\<bar>x\<bar> < 2 powi ((int k - 1) + 1)" by (simp add: power_int_of_nat)
  then have "quantum x \<le> (int k - 1) - 52" by (rule quantum_le) simp
  then have "(2::real) powi quantum x \<le> 2 powi (int k - 53)"
    by (intro power_int_increasing) simp_all
  with rounded_error [of x] have e: "\<bar>rounded x - x\<bar> \<le> 2 powi (int k - 53) / 2" by simp
  have "(2::real) powi (int k - 53) \<le> 2 powi int k"
    by (intro power_int_increasing) simp_all
  then have "(2::real) powi (int k - 53) \<le> 2 ^ k" by (simp add: power_int_of_nat)
  moreover have "(0::real) \<le> 2 powi (int k - 53)" by simp
  ultimately have "(2::real) powi (int k - 53) / 2 \<le> 2 ^ k" by linarith
  with e assms(2) have "rounded x < 2 ^ k + 2 ^ k" by linarith
  also have "\<dots> = (2::real) ^ Suc k" by simp
  also have "\<dots> \<le> 2 ^ 1024" using assms(3) by (intro power_increasing) simp_all
  finally have u: "rounded x < 2 ^ 1024" .
  from assms(1) have n: "0 \<le> rounded x" by (rule rounded_nonneg)
  from u n e show ?thesis by (simp add: double_def)
qed

lemma rounded_int:
  assumes "\<bar>n\<bar> < 2 ^ 53"
  shows "rounded (of_int n) = of_int n"
proof -
  let ?q = "quantum (of_int n)"
  have "\<bar>real_of_int n\<bar> < 2 powi (52 + 1)"
  proof -
    from assms have "real_of_int \<bar>n\<bar> < real_of_int (2 ^ 53)" by (simp only: of_int_less_iff)
    then show ?thesis by simp
  qed
  then have "?q \<le> 52 - 52" by (rule quantum_le) simp
  then have q: "?q \<le> 0" by simp
  then obtain j where j: "?q = - int j" by (metis nat_0_le neg_le_0_iff_le minus_minus)
  have "(2::real) powi ?q = 1 / 2 ^ j" by (simp add: j power_int_minus_divide power_int_of_nat)
  then have s: "real_of_int n / 2 powi ?q = of_int (n * 2 ^ j)"
    and t: "of_int (n * 2 ^ j) * (2::real) powi ?q = of_int n"
    by simp_all
  show ?thesis
    unfolding rounded_def s round_half_even_int t ..
qed

lemma double_int:
  assumes "\<bar>n\<bar> < 2 ^ 53"
  shows "double (of_int n) = Finite (of_int n)"
proof -
  from assms have "real_of_int \<bar>n\<bar> < real_of_int (2 ^ 53)" by (simp only: of_int_less_iff)
  then have "\<bar>real_of_int n\<bar> < 2 ^ 53" by simp
  also have "(2::real) ^ 53 \<le> 2 ^ 1024" by (intro power_increasing) simp_all
  finally have "\<bar>real_of_int n\<bar> < 2 ^ 1024" .
  then show ?thesis
    by (simp add: double_def rounded_int [OF assms] abs_less_iff)
qed

lemma rounded_eval:
  assumes "2 powi b \<le> \<bar>x\<bar>" "\<bar>x\<bar> < 2 powi (b + 1)" "- 1022 \<le> b" "b \<le> 1023"
  shows "rounded x = of_int (round_half_even (x / 2 powi (b - 52))) * 2 powi (b - 52)"
proof -
  from assms have "binade x = b" by (intro binade_eq) simp_all
  with assms(3) have "quantum x = b - 52" by (simp add: quantum_def)
  then show ?thesis by (simp add: rounded_def)
qed

section \<open>Admission by the clock\<close>

text \<open>
  \<^verbatim>\<open>differenceInSeconds\<close> is the whole seconds of the difference as long as the difference
  of the two instants is below \<open>2 ^ 53\<close> milliseconds.
\<close>

lemma trunc_rounded_div:
  assumes "0 \<le> n" and "n < 2 ^ 53"
  shows "double (real_of_int n / 1000) = Finite (rounded (real_of_int n / 1000))
         \<and> \<lfloor>rounded (real_of_int n / 1000)\<rfloor> = n div 1000
         \<and> 0 \<le> rounded (real_of_int n / 1000)"
proof -
  let ?x = "real_of_int n / 1000"
  let ?k = "n div 1000"
  have x0: "0 \<le> ?x" using assms by simp
  have "real_of_int n < real_of_int (2 ^ 53)" using assms by (simp only: of_int_less_iff)
  then have "real_of_int n < 2 ^ 53" by simp
  then have "?x < 2 ^ 53 / 1000" by simp
  also have "\<dots> < (2::real) ^ 44" by simp
  finally have x1: "?x < 2 ^ 44" .
  from double_bounded [OF x0 x1]
  have d: "double ?x = Finite (rounded ?x)" and p: "0 \<le> rounded ?x"
    and e: "\<bar>rounded ?x - ?x\<bar> \<le> 2 powi (int 44 - 53) / 2"
    by simp_all
  have e': "\<bar>rounded ?x - ?x\<bar> \<le> 1 / 1024"
    using e by (simp add: power_int_minus_divide)
  have f: "\<lfloor>rounded ?x\<rfloor> = ?k"
  proof (cases "n mod 1000 = 0")
    case True
    then have "n = ?k * 1000" by auto
    then have "real_of_int n = real_of_int ?k * 1000" by (metis of_int_mult of_int_numeral)
    then have k: "?x = of_int ?k" by simp
    have "\<bar>?k\<bar> < 2 ^ 53" using assms by auto
    then have "rounded (of_int ?k) = of_int ?k" by (rule rounded_int)
    then show ?thesis by (simp only: k floor_of_int)
  next
    case False
    then have m: "1 \<le> n mod 1000" "n mod 1000 \<le> 999"
      using pos_mod_sign [of 1000 n] pos_mod_bound [of 1000 n] by linarith+
    have "n = ?k * 1000 + n mod 1000" by simp
    then have "real_of_int n = real_of_int ?k * 1000 + real_of_int (n mod 1000)"
      by (metis of_int_add of_int_mult of_int_numeral)
    then have x: "?x = of_int ?k + real_of_int (n mod 1000) / 1000" by simp
    from m have "1 / 1000 \<le> real_of_int (n mod 1000) / 1000"
      and "real_of_int (n mod 1000) / 1000 \<le> 999 / 1000"
      by simp_all
    with x e' have "of_int ?k \<le> rounded ?x" and "rounded ?x < of_int ?k + 1" by linarith+
    then show ?thesis by (simp add: floor_unique)
  qed
  from d f p show ?thesis by simp
qed

lemma differenceInSeconds_exact:
  assumes "0 \<le> l - r" and "l - r < 2 ^ 53"
  shows "differenceInSeconds (Some l) (Some r) = Some ((l - r) div 1000)"
proof -
  from assms have "\<bar>l - r\<bar> < 2 ^ 53" by simp
  then have a: "double (of_int (l - r)) = Finite (of_int (l - r))" by (rule double_int)
  from trunc_rounded_div [OF assms]
  have b: "double (real_of_int (l - r) / 1000) = Finite (rounded (real_of_int (l - r) / 1000))"
    and c: "\<lfloor>rounded (real_of_int (l - r) / 1000)\<rfloor> = (l - r) div 1000"
    and d: "0 \<le> rounded (real_of_int (l - r) / 1000)"
    by simp_all
  from d have e: "\<not> rounded (real_of_int (l - r) / 1000) < 0" by simp
  show ?thesis
    by (simp add: differenceInSeconds_def a b c e trunc_number_def del: of_int_diff)
qed

text \<open>
  C3. The claim takes the end of the window to be \<open>scheduledFor + durationMinutes\<close> for
  every duration. The page reads a stored duration of 0 as 60 minutes
  (\<^verbatim>\<open>data.duration || 60\<close>): one minute after the start of a room of duration 0 the claim
  has the window ended, and the page lets the candidate in with 59 minutes left. And when
  the stored duration puts the end of the window outside the range of dates, the end time
  is the Invalid Date, the clock is never past it, and a room whose end time by the claim
  is long past is joinable with no time left.
\<close>

theorem join_window_counterexample:
  "(1700000060000::int) > scheduledFor zero_duration_room + duration zero_duration_room * 60000
   \<and> canStart (fetchInterview 1700000060000 zero_duration_room initial_page)
   \<and> \<not> roomExpired (fetchInterview 1700000060000 zero_duration_room initial_page)
   \<and> remainingTime (fetchInterview 1700000060000 zero_duration_room initial_page) = Some 3540
   \<and> (1700000060000::int) > scheduledFor endless_room + duration endless_room * 60000
   \<and> fetchInterview 1700000060000 endless_room initial_page
       = initial_page\<lparr>canStart := True, remainingTime := Some 0, countdown := False\<rparr>"
proof -
  have "fetchInterview 1700000060000 zero_duration_room initial_page
      = initial_page\<lparr>canStart := True, remainingTime := Some 3540, countdown := True\<rparr>"
    by (simp add: fetchInterview_def zero_duration_room_def demo_room_def addMinutes_def
        plus_milliseconds_def new_Date_def later_def differenceInSeconds_exact Let_def)
  moreover have "fetchInterview 1700000060000 endless_room initial_page
      = initial_page\<lparr>canStart := True, remainingTime := Some 0, countdown := False\<rparr>"
    by (simp add: fetchInterview_def endless_room_def demo_room_def addMinutes_def
        plus_milliseconds_def new_Date_def later_def differenceInSeconds_def Let_def)
  ultimately show ?thesis
    by (simp add: zero_duration_room_def endless_room_def demo_room_def initial_page_def)
qed

text \<open>
  C3, as the page behaves. For a scheduled room let the end time be
  \<open>scheduledFor + d\<close> minutes, where \<open>d\<close> is the stored duration, or 60 when that
  is 0, and let the start and the end time be valid dates (at most 8.64e15 milliseconds
  from the epoch). Then exactly one of three things happens: past the end time the room is
  ended (expired, not startable, and the auto-complete request is sent); otherwise, more
  than five minutes before the start it is not yet open; otherwise it is joinable, and the
  remaining time is never negative; it is the whole seconds from now to the end time
  whenever that distance is below \<open>2 ^ 53\<close> milliseconds, where the subtraction of the
  two time values is exact.
\<close>

theorem join_window_phases:
  assumes sch: "status data = scheduled"
    and st: "\<bar>scheduledFor data\<bar> \<le> 8640000000000000"
    and e: "endTime = scheduledFor data + (if duration data = 0 then 60 else duration data) * 60000"
    and en: "\<bar>endTime\<bar> \<le> 8640000000000000"
  shows "(now_ms > endTime \<longrightarrow>
            fetchInterview now_ms data page
              = page\<lparr>page_error := Some ''This interview has already ended'',
                     roomExpired := True, canStart := False,
                     autoCompleteRequest := Some (room_id data)\<rparr>)
       \<and> (\<not> now_ms > endTime \<and> scheduledFor data - now_ms > 300000 \<longrightarrow>
            fetchInterview now_ms data page
              = page\<lparr>page_error := Some ''This interview has not started yet'',
                     canStart := False\<rparr>)
       \<and> (\<not> now_ms > endTime \<and> \<not> scheduledFor data - now_ms > 300000 \<longrightarrow>
            (\<exists>r\<ge>0. fetchInterview now_ms data page
                     = page\<lparr>canStart := True, remainingTime := Some r, countdown := (r > 0)\<rparr>)
          \<and> (endTime - now_ms < 2 ^ 53 \<longrightarrow>
                fetchInterview now_ms data page
                  = page\<lparr>canStart := True,
                         remainingTime := Some ((endTime - now_ms) div 1000),
                         countdown := ((endTime - now_ms) div 1000 > 0)\<rparr>)
          \<and> 0 \<le> (endTime - now_ms) div 1000)"
proof -
  have s: "new_Date (scheduledFor data) = Some (scheduledFor data)"
    using st by (simp add: new_Date_def)
  have a: "addMinutes (new_Date (scheduledFor data))
             (if duration data = 0 then 60 else duration data) = Some endTime"
    using st en e by (simp add: addMinutes_def plus_milliseconds_def new_Date_def)
  have f: "fetchInterview now_ms data page
      = (if now_ms > endTime
         then page\<lparr>page_error := Some ''This interview has already ended'',
                   roomExpired := True, canStart := False,
                   autoCompleteRequest := Some (room_id data)\<rparr>
         else if scheduledFor data - now_ms > 300000
         then page\<lparr>page_error := Some ''This interview has not started yet'',
                   canStart := False\<rparr>
         else page\<lparr>canStart := True,
                   remainingTime :=
                     Some (case differenceInSeconds (Some endTime) (Some now_ms) of
                             Some r \<Rightarrow> if r > 0 then r else 0 | None \<Rightarrow> 0),
                   countdown :=
                     (case differenceInSeconds (Some endTime) (Some now_ms) of
                        Some r \<Rightarrow> r > 0 | None \<Rightarrow> False)\<rparr>)"
    using sch a by (cases "duration data = 0") (simp_all add: fetchInterview_def Let_def s later_def)
  have g: "\<exists>r\<ge>0. page\<lparr>canStart := True,
                   remainingTime := Some (case d of Some r \<Rightarrow> if r > 0 then r else 0 | None \<Rightarrow> 0),
                   countdown := (case d of Some r \<Rightarrow> r > 0 | None \<Rightarrow> False)\<rparr>
              = page\<lparr>canStart := True, remainingTime := Some r, countdown := (r > 0)\<rparr>"
    for d :: "int option"
  proof (cases d)
    case None
    then show ?thesis by (intro exI [of _ 0]) simp
  next
    case (Some v)
    then show ?thesis by (intro exI [of _ "if v > 0 then v else 0"]) simp
  qed
  have h: "page\<lparr>canStart := True,
                   remainingTime :=
                     Some (case differenceInSeconds (Some endTime) (Some now_ms) of
                             Some r \<Rightarrow> if r > 0 then r else 0 | None \<Rightarrow> 0),
                   countdown :=
                     (case differenceInSeconds (Some endTime) (Some now_ms) of
                        Some r \<Rightarrow> r > 0 | None \<Rightarrow> False)\<rparr>
           = page\<lparr>canStart := True,
                         remainingTime := Some ((endTime - now_ms) div 1000),
                         countdown := ((endTime - now_ms) div 1000 > 0)\<rparr>"
    if "\<not> now_ms > endTime" "endTime - now_ms < 2 ^ 53"
  proof -
    from that have "0 \<le> endTime - now_ms" by simp
    then have "differenceInSeconds (Some endTime) (Some now_ms) = Some ((endTime - now_ms) div 1000)"
      using that(2) by (rule differenceInSeconds_exact)
    moreover from \<open>0 \<le> endTime - now_ms\<close> have "0 \<le> (endTime - now_ms) div 1000" by simp
    ultimately show ?thesis by (cases "(endTime - now_ms) div 1000 = 0") auto
  qed
  show ?thesis
    unfolding f using g h by (auto simp: pos_imp_zdiv_nonneg_iff)
qed

theorem join_window_phases_witness:
  "status demo_room = scheduled
   \<and> \<bar>scheduledFor demo_room\<bar> \<le> 8640000000000000
   \<and> \<bar>1700003600000::int\<bar> \<le> 8640000000000000
   \<and> \<not> (1699999820000::int) > 1700003600000
   \<and> \<not> scheduledFor demo_room - 1699999820000 > 300000
   \<and> (1700003600000::int) - 1699999820000 < 2 ^ 53
   \<and> fetchInterview 1699999820000 demo_room initial_page
       = initial_page\<lparr>canStart := True, remainingTime := Some 3780, countdown := True\<rparr>"
proof -
  have s: "status demo_room = scheduled" by (simp add: demo_room_def)
  have t: "\<bar>scheduledFor demo_room\<bar> \<le> 8640000000000000" by (simp add: demo_room_def)
  have e: "(1700003600000::int)
      = scheduledFor demo_room + (if duration demo_room = 0 then 60 else duration demo_room) * 60000"
    by (simp add: demo_room_def)
  have n: "\<bar>1700003600000::int\<bar> \<le> 8640000000000000" by simp
  show ?thesis
    using s t n join_window_phases [OF s t e n, of 1699999820000 initial_page]
    by (simp add: demo_room_def)
qed

section \<open>Starting a session\<close>

lemma startInterview_flag:
  "isHrScheduledInterview (snd (startInterview fetchQuestions getUserMedia getRandomId s options))
     = hrScheduledCheck options"
  by (simp add: startInterview_def Let_def split: option.split http_reply.split sum.split prod.split)

lemma startInterview_requests:
  "req \<in> set (fst (startInterview fetchQuestions getUserMedia getRandomId s options)) \<Longrightarrow>
   q_count req = questionCount options"
  by (auto simp: startInterview_def Let_def split: option.splits prod.splits)

lemma questionCount_cases:
  "(hrScheduledCheck options \<and> durationInSeconds options = Some d \<and> d > 0 \<longrightarrow>
      questionCount options = max 1 \<lfloor>d / 180\<rfloor>)
   \<and> (hrScheduledCheck options \<and> durationInSeconds options = None \<longrightarrow>
      questionCount options = 5)
   \<and> (\<not> hrScheduledCheck options \<longrightarrow> questionCount options = 10)"
  by (simp add: questionCount_def QUESTION_TIME_LIMIT_SECONDS_def
      DEFAULT_SCHEDULED_QUESTION_COUNT_def DEFAULT_PRACTICE_QUESTION_COUNT_def)

lemma hrScheduledCheck_cases:
  "(opt_isHrScheduled options = None \<longrightarrow>
        (hrScheduledCheck options \<longleftrightarrow> (\<exists>i. opt_interviewId options = Some i \<and> i \<noteq> [])))
   \<and> (\<forall>b. opt_isHrScheduled options = Some b \<longrightarrow> hrScheduledCheck options = b)"
  by (simp add: hrScheduledCheck_def split: option.split)

text \<open>
  C6. The question count: a scheduled session with a positive duration \<open>d\<close> in seconds
  gets \<open>max 1 \<lfloor>d / 180\<rfloor>\<close> questions (so 900 seconds give 5); a scheduled session
  without a duration gets the fallback count 5; a practice session gets 10. When the flag
  is not given, the session counts as scheduled exactly when an interview id is passed;
  when it is given, it decides. \<^verbatim>\<open>startInterview\<close> stores that flag and sends that count.
\<close>

theorem question_count_derivation:
  "(hrScheduledCheck options \<and> durationInSeconds options = Some d \<and> d > 0 \<longrightarrow>
      questionCount options = max 1 \<lfloor>d / 180\<rfloor>)
   \<and> (hrScheduledCheck options \<and> durationInSeconds options = None \<longrightarrow>
      questionCount options = 5)
   \<and> (\<not> hrScheduledCheck options \<longrightarrow> questionCount options = 10)
   \<and> (opt_isHrScheduled options = None \<longrightarrow>
        (hrScheduledCheck options \<longleftrightarrow> (\<exists>i. opt_interviewId options = Some i \<and> i \<noteq> [])))
   \<and> (\<forall>b. opt_isHrScheduled options = Some b \<longrightarrow> hrScheduledCheck options = b)
   \<and> isHrScheduledInterview (snd (startInterview fetchQuestions getUserMedia getRandomId s options))
        = hrScheduledCheck options
   \<and> (\<forall>req \<in> set (fst (startInterview fetchQuestions getUserMedia getRandomId s options)).
        q_count req = questionCount options)"
  using questionCount_cases [of options d] hrScheduledCheck_cases [of options]
    startInterview_flag [of fetchQuestions getUserMedia getRandomId s options]
    startInterview_requests [of _ fetchQuestions getUserMedia getRandomId s options]
  by blast

theorem question_count_derivation_witness:
  "hrScheduledCheck room_options \<and> durationInSeconds room_options = Some 900 \<and> (900::real) > 0
   \<and> opt_isHrScheduled room_options = None
   \<and> questionCount room_options = 5"
proof -
  have h: "hrScheduledCheck room_options"
    by (simp add: hrScheduledCheck_def room_options_def)
  have d: "durationInSeconds room_options = Some 900"
    by (simp add: room_options_def)
  have n: "opt_isHrScheduled room_options = None"
    by (simp add: room_options_def)
  show ?thesis
    using h d n question_count_derivation [of room_options 900]
    by simp
qed

lemma MOCK_QUESTIONS_length: "length (MOCK_QUESTIONS r l) = 4"
  by (cases r; cases l) simp_all

lemma numbered_texts:
  "map question_text
     (map (\<lambda>(k, t). \<lparr>question_id = g k, question_text = t, question_audioUrl = None\<rparr>)
        (zip [0 ..< length m] m)) = m"
  by (rule nth_equalityI) simp_all

lemma numbered_ids:
  "map question_id
     (map (\<lambda>(k, t). \<lparr>question_id = g k, question_text = t, question_audioUrl = None\<rparr>)
        (zip [0 ..< length m] m)) = map g [0 ..< length m]"
  by (rule nth_equalityI) simp_all

lemma mock_fallback_eq:
  "mock_fallback getRandomId cfg
     = map (\<lambda>(k, t). \<lparr>question_id = getRandomId k, question_text = t,
                       question_audioUrl = None\<rparr>)
         (zip [0 ..< length (MOCK_QUESTIONS (jobRole cfg) (experienceLevel cfg))]
              (MOCK_QUESTIONS (jobRole cfg) (experienceLevel cfg)))"
proof -
  let ?m = "MOCK_QUESTIONS (jobRole cfg) (experienceLevel cfg)"
  let ?qs = "map (\<lambda>(k, t). \<lparr>question_id = getRandomId k, question_text = t,
                             question_audioUrl = None\<rparr>) (zip [0 ..< length ?m] ?m)"
  have "length ?qs = 4" by (simp add: MOCK_QUESTIONS_length)
  then have "length ?qs > 0" by simp
  then show ?thesis
    unfolding mock_fallback_def Let_def by (rule if_P)
qed

lemma mock_fallback_texts:
  "map question_text (mock_fallback getRandomId cfg)
     = MOCK_QUESTIONS (jobRole cfg) (experienceLevel cfg)"
  by (simp only: mock_fallback_eq numbered_texts)

lemma mock_fallback_ids:
  "map question_id (mock_fallback getRandomId cfg) = map getRandomId [0 ..< 4]"
proof -
  have "map question_id (mock_fallback getRandomId cfg)
          = map getRandomId [0 ..< length (MOCK_QUESTIONS (jobRole cfg) (experienceLevel cfg))]"
    by (simp only: mock_fallback_eq numbered_ids)
  then show ?thesis by (simp only: MOCK_QUESTIONS_length)
qed

lemma config_eta: "\<lparr>jobRole = jobRole cfg, experienceLevel = experienceLevel cfg\<rparr> = cfg"
  by (cases cfg) simp

lemma startInterview_fallback:
  assumes "fst (startInterview fetchQuestions getUserMedia getRandomId s options) = [req]"
    and "\<forall>texts. fetchQuestions req \<noteq> HttpOk (Some texts)"
  shows "questions (snd (startInterview fetchQuestions getUserMedia getRandomId s options))
           = mock_fallback getRandomId
               \<lparr>jobRole = q_jobRole req, experienceLevel = q_experienceLevel req\<rparr>
         \<and> q_count req = questionCount options"
proof -
  let ?cfg = "case (opt_jobRole options, opt_experienceLevel options) of
               (Some r, Some l) \<Rightarrow> Some \<lparr>jobRole = r, experienceLevel = l\<rparr>
             | _ \<Rightarrow> config s"
  from assms(1) obtain cfg where c: "?cfg = Some cfg"
    by (cases ?cfg) (simp_all add: startInterview_def Let_def)
  with assms(1) have r: "req = \<lparr>q_jobRole = jobRole cfg, q_experienceLevel = experienceLevel cfg,
                             q_count = questionCount options\<rparr>"
    by (simp add: startInterview_def Let_def)
  have "fetchQuestions req = NetworkFailure \<or> (\<exists>c m. fetchQuestions req = HttpError c m)
        \<or> fetchQuestions req = HttpOk None"
    using assms(2) by (cases "fetchQuestions req") (auto simp: option.exhaust)
  with c r show ?thesis
    by (auto simp: startInterview_def Let_def config_eta split: option.split sum.split)
qed

text \<open>
  C10. When the questions request fails (the fetch throws, the status is not ok, or the
  payload has no array of questions), the session's questions are the entries of
  \<^verbatim>\<open>MOCK_QUESTIONS\<close> for the role and level, in order: as many as the table has, which is
  4 for every role and level, with ids drawn in sequence. The count derived from the
  duration appears in the request only.
\<close>

theorem fallback_ignores_question_count:
  assumes "fst (startInterview fetchQuestions getUserMedia getRandomId s options) = [req]"
    and "\<forall>texts. fetchQuestions req \<noteq> HttpOk (Some texts)"
  shows "map question_text
           (questions (snd (startInterview fetchQuestions getUserMedia getRandomId s options)))
           = MOCK_QUESTIONS (q_jobRole req) (q_experienceLevel req)
       \<and> length (questions (snd (startInterview fetchQuestions getUserMedia getRandomId s options)))
           = length (MOCK_QUESTIONS (q_jobRole req) (q_experienceLevel req))
       \<and> length (questions (snd (startInterview fetchQuestions getUserMedia getRandomId s options)))
           = 4
       \<and> map question_id
           (questions (snd (startInterview fetchQuestions getUserMedia getRandomId s options)))
           = map getRandomId [0 ..< 4]
       \<and> q_count req = questionCount options"
proof -
  let ?qs = "questions (snd (startInterview fetchQuestions getUserMedia getRandomId s options))"
  let ?cfg = "\<lparr>jobRole = q_jobRole req, experienceLevel = q_experienceLevel req\<rparr>"
  from startInterview_fallback [OF assms]
  have q: "?qs = mock_fallback getRandomId ?cfg" and c: "q_count req = questionCount options"
    by simp_all
  have t: "map question_text ?qs = MOCK_QUESTIONS (q_jobRole req) (q_experienceLevel req)"
    using mock_fallback_texts [of getRandomId ?cfg] by (simp add: q)
  have i: "map question_id ?qs = map getRandomId [0 ..< 4]"
    unfolding q by (rule mock_fallback_ids)
  have l: "length ?qs = length (MOCK_QUESTIONS (q_jobRole req) (q_experienceLevel req))"
    using arg_cong [OF t, of length] by simp
  from t i l c show ?thesis by (simp add: MOCK_QUESTIONS_length)
qed

lemma room_start_request:
  "fst (startInterview failing_gateway (Inl ''NotAllowedError'') sample_ids initial_session
          room_options)
     = [\<lparr>q_jobRole = web_developer, q_experienceLevel = mid_level, q_count = 5\<rparr>]"
  by (simp add: startInterview_def Let_def room_options_def initial_session_def
      questionCount_def hrScheduledCheck_def QUESTION_TIME_LIMIT_SECONDS_def)

theorem fallback_ignores_question_count_witness:
  "fst (startInterview failing_gateway (Inl ''NotAllowedError'') sample_ids initial_session
          room_options)
     = [\<lparr>q_jobRole = web_developer, q_experienceLevel = mid_level, q_count = 5\<rparr>]
   \<and> (\<forall>texts. failing_gateway
                  \<lparr>q_jobRole = web_developer, q_experienceLevel = mid_level, q_count = 5\<rparr>
                \<noteq> HttpOk (Some texts))
   \<and> length (questions (snd (startInterview failing_gateway (Inl ''NotAllowedError'') sample_ids
                               initial_session room_options))) = 4
   \<and> questionCount room_options = 5"
proof -
  have f: "\<forall>texts. failing_gateway
                  \<lparr>q_jobRole = web_developer, q_experienceLevel = mid_level, q_count = 5\<rparr>
                \<noteq> HttpOk (Some texts)"
    by (simp add: failing_gateway_def)
  show ?thesis
    using room_start_request f fallback_ignores_question_count [OF room_start_request f]
    by simp
qed

section \<open>Saving and scoring an answer\<close>

lemma updatedAnswers_Cons_same:
  "questionId x = questionId f \<Longrightarrow> updatedAnswers f (x # xs) = spread_answer x f # xs"
  by (simp add: updatedAnswers_def)

lemma updatedAnswers_Cons_other:
  "questionId x \<noteq> questionId f \<Longrightarrow> updatedAnswers f (x # xs) = x # updatedAnswers f xs"
  by (cases "findIndex (\<lambda>a. questionId a = questionId f) xs") (simp_all add: updatedAnswers_def)

lemma updatedAnswers_Nil: "updatedAnswers f [] = [f]"
  by (simp add: updatedAnswers_def)

lemma questionId_spread [simp]: "questionId (spread_answer old f) = questionId f"
  by (simp add: spread_answer_def)

lemma find_updatedAnswers:
  "find (\<lambda>a. questionId a = questionId f) (updatedAnswers f prev)
     = Some (case find (\<lambda>a. questionId a = questionId f) prev of
               None \<Rightarrow> f
             | Some old \<Rightarrow> spread_answer old f)"
proof (induction prev)
  case Nil
  then show ?case by (simp add: updatedAnswers_Nil)
next
  case (Cons x xs)
  then show ?case
    by (cases "questionId x = questionId f")
      (simp_all add: updatedAnswers_Cons_same updatedAnswers_Cons_other)
qed

lemma others_updatedAnswers:
  "filter (\<lambda>a. questionId a \<noteq> questionId f) (updatedAnswers f prev)
     = filter (\<lambda>a. questionId a \<noteq> questionId f) prev"
proof (induction prev)
  case Nil
  then show ?case by (simp add: updatedAnswers_Nil)
next
  case (Cons x xs)
  then show ?case
    by (cases "questionId x = questionId f")
      (simp_all add: updatedAnswers_Cons_same updatedAnswers_Cons_other)
qed

lemma length_updatedAnswers:
  "length (updatedAnswers f prev)
     = (if \<exists>a \<in> set prev. questionId a = questionId f then length prev else Suc (length prev))"
proof (induction prev)
  case Nil
  then show ?case by (simp add: updatedAnswers_Nil)
next
  case (Cons x xs)
  then show ?case
    by (cases "questionId x = questionId f")
      (simp_all add: updatedAnswers_Cons_same updatedAnswers_Cons_other)
qed

lemma recorded_fields:
  assumes "score f = Some v" "feedback f = Some fb" "strengths f = Some st" "weaknesses f = Some w"
  shows "\<exists>rec. find (\<lambda>a. questionId a = questionId f) (updatedAnswers f prev) = Some rec
           \<and> questionId rec = questionId f \<and> answer_text rec = answer_text f
           \<and> score rec = Some v \<and> feedback rec = Some fb
           \<and> strengths rec = Some st \<and> weaknesses rec = Some w"
  using assms
  by (cases "find (\<lambda>a. questionId a = questionId f) prev")
    (simp_all add: find_updatedAnswers spread_answer_def spread_def)

text \<open>The two branches of saveAnswer, once its guard has passed.\<close>

lemma saveAnswer_short:
  assumes "config s = Some cfg" "currentQuestionIndex s < length (questions s)"
    and "length (trim (ad_text a)) \<le> 10"
  shows "saveAnswer fetchAnalyze random s a
     = ([], s\<lparr>answers := updatedAnswers
                 \<lparr>questionId = ad_questionId a, answer_text = ad_text a,
                  audioUrl = ad_audioUrl a, score = Some 0,
                  feedback = Some ''Answer was too short for analysis.'',
                  strengths = Some [], weaknesses = Some [],
                  questionText = ad_questionText a\<rparr> (answers s)\<rparr>)"
  using assms by (simp add: saveAnswer_def Let_def)

lemma trim_Nil: "trim [] = []"
  by (simp add: trim_def)

lemma saveAnswer_long:
  assumes "config s = Some cfg" "currentQuestionIndex s < length (questions s)"
    and "length (trim (ad_text a)) > 10"
  shows "saveAnswer fetchAnalyze random s a
     = (let req = \<lparr>req_question = question_text (questions s ! currentQuestionIndex s),
                   req_answer = ad_text a, req_jobRole = Some (jobRole cfg),
                   req_experienceLevel = Some (experienceLevel cfg)\<rparr>;
            an = (case fetchAnalyze req of HttpOk r \<Rightarrow> r | _ \<Rightarrow> mockAnalysis random)
        in ([req], s\<lparr>answers := updatedAnswers
                 \<lparr>questionId = ad_questionId a, answer_text = ad_text a,
                  audioUrl = ad_audioUrl a, score = Some (an_score an),
                  feedback = Some (an_feedback an),
                  strengths = Some (case an_strengths an of None \<Rightarrow> [] | Some l \<Rightarrow> l),
                  weaknesses = Some (case an_weaknesses an of None \<Rightarrow> [] | Some l \<Rightarrow> l),
                  questionText = ad_questionText a\<rparr> (answers s)\<rparr>))"
proof -
  from assms(3) have "ad_text a \<noteq> []" by (auto simp: trim_Nil)
  with assms show ?thesis
    by (simp add: saveAnswer_def analyzeAnswer_def Let_def)
qed

lemma saveAnswer_calls:
  "fst (saveAnswer fetchAnalyze random s a) \<noteq> [] \<Longrightarrow> length (trim (ad_text a)) > 10"
  by (auto simp: saveAnswer_def Let_def analyzeAnswer_def split: option.splits if_splits)

lemma length_js: "length (js s) = length s"
  by (simp add: js_def)

lemma trim_short: "trim (js '' Yes. '') = js ''Yes.''"
  by (simp add: trim_def js_def isWhiteSpace_def)

lemma trim_long: "length (trim (js ''REST maps resources to URLs.'')) = 28"
  by (simp add: trim_def js_def isWhiteSpace_def)

text \<open>
  C5. The claim has every answer of trimmed length at most 10 recorded with score 0. A
  session started without a role and level has no config; it is in progress and shows its
  one question, and \<^verbatim>\<open>saveAnswer\<close> returns before recording anything.
\<close>

theorem short_answer_counterexample:
  "isInterviewInProgress unconfigured_session
   \<and> map question_id (questions unconfigured_session) = [''q'']
   \<and> length (trim (ad_text short_answer)) \<le> 10
   \<and> answers (snd (saveAnswer scoring_down 0 unconfigured_session short_answer)) = []"
  by (simp add: unconfigured_session_def startInterview_def no_options_def initial_session_def
      Let_def sample_ids_def saveAnswer_def short_answer_def trim_short length_js)

text \<open>
  C5, as \<^verbatim>\<open>saveAnswer\<close> behaves. In a session that has a config and a current question, an
  answer whose trimmed text has at most 10 code units is recorded with score 0, the fixed
  feedback and no tags, and the scoring endpoint is not called. The entry for the question
  id is the new answer's; the answers of other questions stay as they are, and a new entry
  is appended only if the question had none. In any state, the endpoint is called only
  when the trimmed length exceeds 10.
\<close>

theorem short_answer_gate:
  assumes "config s = Some cfg" and "currentQuestionIndex s < length (questions s)"
    and "length (trim (ad_text a)) \<le> 10"
  shows "fst (saveAnswer fetchAnalyze random s a) = []
       \<and> (\<exists>rec. find (\<lambda>x. questionId x = ad_questionId a)
                    (answers (snd (saveAnswer fetchAnalyze random s a))) = Some rec
             \<and> answer_text rec = ad_text a \<and> score rec = Some 0
             \<and> feedback rec = Some ''Answer was too short for analysis.''
             \<and> strengths rec = Some [] \<and> weaknesses rec = Some [])
       \<and> filter (\<lambda>x. questionId x \<noteq> ad_questionId a)
            (answers (snd (saveAnswer fetchAnalyze random s a)))
           = filter (\<lambda>x. questionId x \<noteq> ad_questionId a) (answers s)
       \<and> length (answers (snd (saveAnswer fetchAnalyze random s a)))
           = (if \<exists>x \<in> set (answers s). questionId x = ad_questionId a
              then length (answers s) else Suc (length (answers s)))
       \<and> (\<forall>s' a'. fst (saveAnswer fetchAnalyze random s' a') \<noteq> [] \<longrightarrow>
                    length (trim (ad_text a')) > 10)"
proof -
  let ?f = "\<lparr>questionId = ad_questionId a, answer_text = ad_text a,
                  audioUrl = ad_audioUrl a, score = Some 0,
                  feedback = Some ''Answer was too short for analysis.'',
                  strengths = Some [], weaknesses = Some [],
                  questionText = ad_questionText a\<rparr>"
  have e: "saveAnswer fetchAnalyze random s a
             = ([], s\<lparr>answers := updatedAnswers ?f (answers s)\<rparr>)"
    using assms by (rule saveAnswer_short)
  have r: "\<exists>rec. find (\<lambda>x. questionId x = ad_questionId a) (updatedAnswers ?f (answers s))
                   = Some rec
             \<and> answer_text rec = ad_text a \<and> score rec = Some 0
             \<and> feedback rec = Some ''Answer was too short for analysis.''
             \<and> strengths rec = Some [] \<and> weaknesses rec = Some []"
  proof -
    from recorded_fields [of ?f 0 "''Answer was too short for analysis.''" "[]" "[]" "answers s"]
    obtain rec where "find (\<lambda>x. questionId x = questionId ?f) (updatedAnswers ?f (answers s))
                        = Some rec"
      and "answer_text rec = answer_text ?f" and "score rec = Some 0"
      and "feedback rec = Some ''Answer was too short for analysis.''"
      and "strengths rec = Some []" and "weaknesses rec = Some []"
      by auto
    then show ?thesis by simp
  qed
  have o: "filter (\<lambda>x. questionId x \<noteq> ad_questionId a) (updatedAnswers ?f (answers s))
           = filter (\<lambda>x. questionId x \<noteq> ad_questionId a) (answers s)"
    using others_updatedAnswers [of ?f "answers s"] by simp
  have l: "length (updatedAnswers ?f (answers s))
           = (if \<exists>x \<in> set (answers s). questionId x = ad_questionId a
              then length (answers s) else Suc (length (answers s)))"
    using length_updatedAnswers [of ?f "answers s"] by simp
  show ?thesis
    unfolding e using r o l saveAnswer_calls [of fetchAnalyze random] by simp
qed

theorem short_answer_gate_witness:
  "config example_session = Some \<lparr>jobRole = web_developer, experienceLevel = mid_level\<rparr>
   \<and> currentQuestionIndex example_session < length (questions example_session)
   \<and> length (trim (ad_text (short_answer\<lparr>ad_questionId := ''Q1''\<rparr>))) \<le> 10
   \<and> fst (saveAnswer scoring_down 0 example_session (short_answer\<lparr>ad_questionId := ''Q1''\<rparr>)) = []
   \<and> length (answers (snd (saveAnswer scoring_down 0 example_session
                               (short_answer\<lparr>ad_questionId := ''Q1''\<rparr>)))) = 2
   \<and> map score (answers (snd (saveAnswer scoring_down 0 example_session
                               (short_answer\<lparr>ad_questionId := ''Q1''\<rparr>)))) = [Some 0, Some 70]"
proof -
  have c: "config example_session = Some \<lparr>jobRole = web_developer, experienceLevel = mid_level\<rparr>"
    by (simp add: example_session_def)
  have i: "currentQuestionIndex example_session < length (questions example_session)"
    by (simp add: example_session_def initial_session_def example_questions_def)
  have t: "length (trim (ad_text (short_answer\<lparr>ad_questionId := ''Q1''\<rparr>))) \<le> 10"
    by (simp add: short_answer_def trim_short length_js)
  have m: "map score (answers (snd (saveAnswer scoring_down 0 example_session
                               (short_answer\<lparr>ad_questionId := ''Q1''\<rparr>)))) = [Some 0, Some 70]"
    unfolding saveAnswer_short [OF c i t]
    by (simp add: example_session_def example_answers_def short_answer_def updatedAnswers_def
        spread_answer_def spread_def)
  have an: "\<exists>x \<in> set (answers example_session). questionId x = ''Q1''"
    by (simp add: example_session_def example_answers_def)
  show ?thesis
    using c i t m an short_answer_gate [OF c i t, of scoring_down 0]
    by (simp add: example_session_def example_answers_def short_answer_def)
qed

text \<open>
  A score between 0 and 1 times 100: the product is finite, within \<open>1 / 2 ^ 47\<close> of the
  exact product, and rounds to a whole number between 0 and 100.
\<close>

lemma times_100:
  fixes sc :: real
  assumes "0 \<le> sc" and "sc \<le> 1"
  shows "js_times (Finite sc) (Finite 100) = Finite (rounded (sc * 100))"
    and "\<bar>rounded (sc * 100) - sc * 100\<bar> \<le> 1 / 2 ^ 47"
    and "0 \<le> rounded (sc * 100)"
proof -
  from assms have x0: "0 \<le> sc * 100" by simp
  from assms have "sc * 100 \<le> 100" by simp
  also have "\<dots> < (2::real) ^ 7" by simp
  finally have x1: "sc * 100 < 2 ^ 7" .
  from double_bounded [OF x0 x1]
  have d: "double (sc * 100) = Finite (rounded (sc * 100))" and p: "0 \<le> rounded (sc * 100)"
    and e: "\<bar>rounded (sc * 100) - sc * 100\<bar> \<le> 2 powi (int 7 - 53) / 2"
    by simp_all
  from d show "js_times (Finite sc) (Finite 100) = Finite (rounded (sc * 100))" by simp
  from e show "\<bar>rounded (sc * 100) - sc * 100\<bar> \<le> 1 / 2 ^ 47"
    by (simp add: power_int_minus_divide)
  from p show "0 \<le> rounded (sc * 100)" .
qed

lemma round_percent:
  fixes sc :: real
  assumes "0 \<le> sc" and "sc \<le> 1"
  shows "0 \<le> round (rounded (sc * 100)) \<and> round (rounded (sc * 100)) \<le> 100
         \<and> round (sc * 100 - 1 / 2 ^ 47) \<le> round (rounded (sc * 100))
         \<and> round (rounded (sc * 100)) \<le> round (sc * 100 + 1 / 2 ^ 47)"
proof -
  note t = times_100 [OF assms]
  from t(3) have "round (0::real) \<le> round (rounded (sc * 100))" by (rule round_mono)
  then have a: "0 \<le> round (rounded (sc * 100))" by simp
  from t(2) have l: "sc * 100 - 1 / 2 ^ 47 \<le> rounded (sc * 100)"
    and u: "rounded (sc * 100) \<le> sc * 100 + 1 / 2 ^ 47"
    by linarith+
  from assms have "sc * 100 \<le> 100" by simp
  with u have "rounded (sc * 100) \<le> 100 + 1 / 2 ^ 47" by linarith
  then have "round (rounded (sc * 100)) \<le> round (100 + 1 / 2 ^ 47 :: real)" by (rule round_mono)
  also have "round (100 + 1 / 2 ^ 47 :: real) = 100" by (simp add: round_def floor_unique)
  finally have b: "round (rounded (sc * 100)) \<le> 100" .
  from l have c: "round (sc * 100 - 1 / 2 ^ 47) \<le> round (rounded (sc * 100))" by (rule round_mono)
  from u have d: "round (rounded (sc * 100)) \<le> round (sc * 100 + 1 / 2 ^ 47)" by (rule round_mono)
  from a b c d show ?thesis by simp
qed

lemma analyze_reply:
  assumes "evaluator req = Evaluation (Finite sc) fb"
    and "req_question req \<noteq> []" and "req_answer req \<noteq> []"
    and "0 \<le> sc" and "sc \<le> 1"
  shows "post_gemini_analyze evaluator req
           = HttpOk \<lparr>aj_score = Some (round (rounded (sc * 100))), aj_feedback = fb\<rparr>"
  using assms times_100 (1) [of sc]
  by (simp add: post_gemini_analyze_def round_def)

text \<open>
  The made-up score: the largest double below 1 is \<open>1 - 1 / 2 ^ 53\<close>, its product with 21
  is stored as a number below 21, and adding 50 to a whole number is exact.
\<close>

lemma mock_score_range:
  assumes "0 \<le> random" and "random \<le> 1 - 1 / 2 ^ 53"
  shows "50 \<le> an_score (mockAnalysis random) \<and> an_score (mockAnalysis random) \<le> 70"
proof -
  let ?x = "random * 21"
  from assms have x0: "0 \<le> ?x" by simp
  from assms have xu: "?x \<le> 21 - 21 / 2 ^ 53" by simp
  also have "\<dots> < (2::real) ^ 5" by simp
  finally have x1: "?x < 2 ^ 5" .
  from double_bounded [OF x0 x1]
  have d: "double ?x = Finite (rounded ?x)" and p: "0 \<le> rounded ?x"
    and e: "\<bar>rounded ?x - ?x\<bar> \<le> 2 powi (int 5 - 53) / 2"
    by simp_all
  from e have "\<bar>rounded ?x - ?x\<bar> \<le> 16 / 2 ^ 53" by (simp add: power_int_minus_divide)
  with xu have "rounded ?x \<le> 21 - 5 / 2 ^ 53" by linarith
  also have "\<dots> < (21::real)" by simp
  finally have "rounded ?x < 21" .
  then have f1: "\<lfloor>rounded ?x\<rfloor> < 21" by (simp add: floor_less_iff)
  from p have f0: "0 \<le> \<lfloor>rounded ?x\<rfloor>" by simp
  from f0 f1 have "\<bar>\<lfloor>rounded ?x\<rfloor> + 50\<bar> < 2 ^ 53" by simp
  then have "double (of_int (\<lfloor>rounded ?x\<rfloor> + 50)) = Finite (of_int (\<lfloor>rounded ?x\<rfloor> + 50))"
    by (rule double_int)
  then have s: "js_plus (Math_floor (js_times (Finite random) (Finite 21))) (Finite 50)
      = Finite (of_int (\<lfloor>rounded ?x\<rfloor> + 50))"
    by (simp add: d)
  have "an_score (mockAnalysis random) = \<lfloor>rounded ?x\<rfloor> + 50"
    unfolding mockAnalysis_def s by simp
  with f0 f1 show ?thesis by simp
qed

text \<open>
  Two products that double precision rounds across a boundary. The double nearest 0.285
  times 100 is stored below 28.5, so the backend answers 28, where the decimal 0.285 would
  give 29; and the double nearest 4/21 times 21 is stored as 4, so the made-up score is 54.
\<close>

lemma scaled_score_example:
  "post_gemini_analyze (\<lambda>r. Evaluation (Finite (5134103575202365 / 2 ^ 54)) fb) long_answer_request
     = HttpOk \<lparr>aj_score = Some 28, aj_feedback = fb\<rparr>
   \<and> round (285 / 1000 * 100 :: real) = 29"
proof -
  have r: "rounded (5134103575202365 / 2 ^ 54 * 100) = 8022036836253695 / 2 ^ 48"
  proof -
    have "rounded (5134103575202365 / 2 ^ 54 * 100)
        = of_int (round_half_even (5134103575202365 / 2 ^ 54 * 100 / 2 powi (4 - 52)))
            * 2 powi (4 - 52)"
      by (rule rounded_eval) simp_all
    also have "\<dots> = 8022036836253695 / 2 ^ 48"
      by (simp add: round_half_even_def Let_def)
    finally show ?thesis .
  qed
  have "post_gemini_analyze (\<lambda>r. Evaluation (Finite (5134103575202365 / 2 ^ 54)) fb) long_answer_request
     = HttpOk \<lparr>aj_score = Some (round (rounded (5134103575202365 / 2 ^ 54 * 100))), aj_feedback = fb\<rparr>"
    by (rule analyze_reply) (simp_all add: long_answer_request_def long_answer_def js_def)
  then show ?thesis unfolding r by (simp add: round_def floor_unique)
qed

lemma mock_score_example: "an_score (mockAnalysis (857828500451523 / 2 ^ 52)) = 54"
proof -
  have "rounded (857828500451523 / 2 ^ 52 * 21)
      = of_int (round_half_even (857828500451523 / 2 ^ 52 * 21 / 2 powi (1 - 52))) * 2 powi (1 - 52)"
    by (rule rounded_eval) simp_all
  also have "\<dots> = 4"
    by (simp add: round_half_even_def Let_def)
  finally have r: "rounded (857828500451523 / 2 ^ 52 * 21) = 4" .
  have x0: "0 \<le> (857828500451523 / 2 ^ 52 * 21 :: real)" by simp
  have x1: "857828500451523 / 2 ^ 52 * 21 < (2::real) ^ 5" by simp
  have k: "(5::nat) \<le> 1023" by simp
  note d = double_bounded [OF x0 x1 k, THEN conjunct1, unfolded r]
  have e: "double (of_int 54) = Finite (of_int 54)" by (rule double_int) simp
  show ?thesis using d e by (simp add: mockAnalysis_def)
qed

lemma saveAnswer_request:
  assumes "fst (saveAnswer fetchAnalyze random s a) = [req]"
  shows "\<exists>cfg. config s = Some cfg \<and> currentQuestionIndex s < length (questions s)
           \<and> length (trim (ad_text a)) > 10
           \<and> req = \<lparr>req_question = question_text (questions s ! currentQuestionIndex s),
                     req_answer = ad_text a, req_jobRole = Some (jobRole cfg),
                     req_experienceLevel = Some (experienceLevel cfg)\<rparr>"
proof (cases "config s")
  case None
  with assms show ?thesis by (simp add: saveAnswer_def)
next
  case (Some cfg)
  from assms have "fst (saveAnswer fetchAnalyze random s a) \<noteq> []" by simp
  then have t: "length (trim (ad_text a)) > 10" by (rule saveAnswer_calls)
  from assms Some have i: "currentQuestionIndex s < length (questions s)"
    by (auto simp: saveAnswer_def split: if_splits)
  from assms show ?thesis
    unfolding saveAnswer_long [OF Some i t] using Some i t by (simp add: Let_def)
qed

text \<open>
  C8. Take any call of the scoring endpoint that \<^verbatim>\<open>saveAnswer\<close> makes, and let the
  evaluator give a score \<open>sc\<close> between 0 and 1 with a feedback text. Then the backend's
  product \<^verbatim>\<open>score * 100\<close> is the double nearest \<open>sc * 100\<close>, within \<open>1 / 2 ^ 47\<close> of it;
  the backend answers with that product rounded by \<^verbatim>\<open>Math.round\<close> and with the feedback;
  the rounded score lies in 0..100, between the roundings of \<open>sc * 100 - 1 / 2 ^ 47\<close> and
  of \<open>sc * 100 + 1 / 2 ^ 47\<close>; and when the page receives that reply, this score and
  feedback are what the session records. When the call fails in any way (no reply, or a
  status that is not ok), the answer is recorded all the same, with a score between 50
  and 70 made from the random number, and a feedback text and a weakness tag saying that
  the analysis was not available.
\<close>

theorem scoring_scaled_or_fallback:
  assumes "fst (saveAnswer fetchAnalyze random s a) = [req]"
  shows "(\<forall>sc fb. evaluator req = Evaluation (Finite sc) fb \<and> req_question req \<noteq> []
                  \<and> 0 \<le> sc \<and> sc \<le> 1 \<longrightarrow>
             js_times (Finite sc) (Finite 100) = Finite (rounded (sc * 100))
           \<and> \<bar>rounded (sc * 100) - sc * 100\<bar> \<le> 1 / 2 ^ 47
           \<and> post_gemini_analyze evaluator req
               = HttpOk \<lparr>aj_score = Some (round (rounded (sc * 100))), aj_feedback = fb\<rparr>
           \<and> 0 \<le> round (rounded (sc * 100)) \<and> round (rounded (sc * 100)) \<le> 100
           \<and> round (sc * 100 - 1 / 2 ^ 47) \<le> round (rounded (sc * 100))
           \<and> round (rounded (sc * 100)) \<le> round (sc * 100 + 1 / 2 ^ 47)
           \<and> (fetchAnalyze req
                 = HttpOk \<lparr>an_score = round (rounded (sc * 100)), an_feedback = fb,
                          an_strengths = None, an_weaknesses = None\<rparr> \<longrightarrow>
                (\<exists>rec. find (\<lambda>x. questionId x = ad_questionId a)
                          (answers (snd (saveAnswer fetchAnalyze random s a))) = Some rec
                   \<and> score rec = Some (round (rounded (sc * 100)))
                   \<and> feedback rec = Some fb)))
       \<and> ((\<forall>an. fetchAnalyze req \<noteq> HttpOk an) \<and> 0 \<le> random \<and> random \<le> 1 - 1 / 2 ^ 53 \<longrightarrow>
             (\<exists>rec v. find (\<lambda>x. questionId x = ad_questionId a)
                        (answers (snd (saveAnswer fetchAnalyze random s a))) = Some rec
                 \<and> score rec = Some v \<and> 50 \<le> v \<and> v \<le> 70
                 \<and> feedback rec
                     = Some ''Error analyzing your answer with the AI service. This is fallback feedback.''
                 \<and> weaknesses rec = Some [''AI analysis unavailable'']))"
proof -
  from saveAnswer_request [OF assms] obtain cfg where
    g: "config s = Some cfg" "currentQuestionIndex s < length (questions s)"
       "length (trim (ad_text a)) > 10"
    and r: "req = \<lparr>req_question = question_text (questions s ! currentQuestionIndex s),
                     req_answer = ad_text a, req_jobRole = Some (jobRole cfg),
                     req_experienceLevel = Some (experienceLevel cfg)\<rparr>"
    by blast
  from g(3) have ne: "req_answer req \<noteq> []"
    by (auto simp: r trim_Nil)
  have rec: "\<exists>rec. find (\<lambda>x. questionId x = ad_questionId a)
                     (answers (snd (saveAnswer fetchAnalyze random s a))) = Some rec
               \<and> score rec = Some (an_score an) \<and> feedback rec = Some (an_feedback an)
               \<and> weaknesses rec = Some (case an_weaknesses an of None \<Rightarrow> [] | Some l \<Rightarrow> l)"
    if "an = (case fetchAnalyze req of HttpOk r \<Rightarrow> r | _ \<Rightarrow> mockAnalysis random)" for an
  proof -
    let ?f = "\<lparr>questionId = ad_questionId a, answer_text = ad_text a,
                  audioUrl = ad_audioUrl a, score = Some (an_score an),
                  feedback = Some (an_feedback an),
                  strengths = Some (case an_strengths an of None \<Rightarrow> [] | Some l \<Rightarrow> l),
                  weaknesses = Some (case an_weaknesses an of None \<Rightarrow> [] | Some l \<Rightarrow> l),
                  questionText = ad_questionText a\<rparr>"
    have e: "answers (snd (saveAnswer fetchAnalyze random s a)) = updatedAnswers ?f (answers s)"
      using saveAnswer_long [OF g, folded r, of fetchAnalyze random] that
      by (simp add: Let_def)
    from recorded_fields [of ?f "an_score an" "an_feedback an" _ _ "answers s"]
    obtain rec where "find (\<lambda>x. questionId x = questionId ?f) (updatedAnswers ?f (answers s))
                        = Some rec"
      and "score rec = Some (an_score an)" and "feedback rec = Some (an_feedback an)"
      and "weaknesses rec = Some (case an_weaknesses an of None \<Rightarrow> [] | Some l \<Rightarrow> l)"
      by auto
    then show ?thesis unfolding e by simp
  qed
  have ok: "js_times (Finite sc) (Finite 100) = Finite (rounded (sc * 100))
           \<and> \<bar>rounded (sc * 100) - sc * 100\<bar> \<le> 1 / 2 ^ 47
           \<and> post_gemini_analyze evaluator req
               = HttpOk \<lparr>aj_score = Some (round (rounded (sc * 100))), aj_feedback = fb\<rparr>
           \<and> 0 \<le> round (rounded (sc * 100)) \<and> round (rounded (sc * 100)) \<le> 100
           \<and> round (sc * 100 - 1 / 2 ^ 47) \<le> round (rounded (sc * 100))
           \<and> round (rounded (sc * 100)) \<le> round (sc * 100 + 1 / 2 ^ 47)
           \<and> (fetchAnalyze req
                 = HttpOk \<lparr>an_score = round (rounded (sc * 100)), an_feedback = fb,
                          an_strengths = None, an_weaknesses = None\<rparr> \<longrightarrow>
                (\<exists>rec. find (\<lambda>x. questionId x = ad_questionId a)
                          (answers (snd (saveAnswer fetchAnalyze random s a))) = Some rec
                   \<and> score rec = Some (round (rounded (sc * 100)))
                   \<and> feedback rec = Some fb))"
    if ev: "evaluator req = Evaluation (Finite sc) fb \<and> req_question req \<noteq> []
              \<and> 0 \<le> sc \<and> sc \<le> 1" for sc fb
  proof -
    from ev have b: "0 \<le> sc" "sc \<le> 1" by simp_all
    from ev ne have p: "post_gemini_analyze evaluator req
               = HttpOk \<lparr>aj_score = Some (round (rounded (sc * 100))), aj_feedback = fb\<rparr>"
      by (intro analyze_reply) simp_all
    have q: "\<exists>rec. find (\<lambda>x. questionId x = ad_questionId a)
                          (answers (snd (saveAnswer fetchAnalyze random s a))) = Some rec
                   \<and> score rec = Some (round (rounded (sc * 100)))
                   \<and> feedback rec = Some fb"
      if h: "fetchAnalyze req
                 = HttpOk \<lparr>an_score = round (rounded (sc * 100)), an_feedback = fb,
                          an_strengths = None, an_weaknesses = None\<rparr>"
      using rec [where an = "\<lparr>an_score = round (rounded (sc * 100)), an_feedback = fb,
                        an_strengths = None, an_weaknesses = None\<rparr>"] h
      by auto
    from p q times_100 (1,2) [OF b] round_percent [OF b] show ?thesis by blast
  qed
  have fail: "\<exists>rec v. find (\<lambda>x. questionId x = ad_questionId a)
                        (answers (snd (saveAnswer fetchAnalyze random s a))) = Some rec
                 \<and> score rec = Some v \<and> 50 \<le> v \<and> v \<le> 70
                 \<and> feedback rec
                     = Some ''Error analyzing your answer with the AI service. This is fallback feedback.''
                 \<and> weaknesses rec = Some [''AI analysis unavailable'']"
    if f: "(\<forall>an. fetchAnalyze req \<noteq> HttpOk an) \<and> 0 \<le> random \<and> random \<le> 1 - 1 / 2 ^ 53"
  proof -
    from f have m: "mockAnalysis random
        = (case fetchAnalyze req of HttpOk r \<Rightarrow> r | _ \<Rightarrow> mockAnalysis random)"
      by (cases "fetchAnalyze req") simp_all
    from rec [where an = "mockAnalysis random"] m obtain rec where
      r: "find (\<lambda>x. questionId x = ad_questionId a)
            (answers (snd (saveAnswer fetchAnalyze random s a))) = Some rec"
      "score rec = Some (an_score (mockAnalysis random))"
      "feedback rec = Some (an_feedback (mockAnalysis random))"
      "weaknesses rec = Some (case an_weaknesses (mockAnalysis random) of None \<Rightarrow> [] | Some l \<Rightarrow> l)"
      by auto
    from f have "50 \<le> an_score (mockAnalysis random) \<and> an_score (mockAnalysis random) \<le> 70"
      by (intro mock_score_range) simp_all
    with r show ?thesis by (simp add: mockAnalysis_def)
  qed
  from ok fail show ?thesis by blast
qed

lemma long_answer_sent:
  "fst (saveAnswer fetchAnalyze random example_session long_answer) = [long_answer_request]"
proof -
  have c: "config example_session = Some \<lparr>jobRole = web_developer, experienceLevel = mid_level\<rparr>"
    by (simp add: example_session_def)
  have i: "currentQuestionIndex example_session < length (questions example_session)"
    by (simp add: example_session_def initial_session_def example_questions_def)
  have t: "length (trim (ad_text long_answer)) > 10"
    by (simp add: long_answer_def trim_long)
  show ?thesis
    unfolding saveAnswer_long [OF c i t]
    by (simp add: Let_def long_answer_request_def example_session_def initial_session_def
        example_questions_def long_answer_def)
qed

text \<open>
  The double nearest 0.015, times 100: the product is stored as 1.5 and rounds to 2, though
  the exact product is below 1.5 and rounds to 1.
\<close>

lemma sample_product: "rounded (1080863910568919 / 2 ^ 56 * 100) = 3 / 2"
proof -
  have "rounded (1080863910568919 / 2 ^ 56 * 100)
      = of_int (round_half_even (1080863910568919 / 2 ^ 56 * 100 / 2 powi (0 - 52)))
          * 2 powi (0 - 52)"
    by (rule rounded_eval) simp_all
  also have "\<dots> = 3 / 2"
    by (simp add: round_half_even_def Let_def)
  finally show ?thesis .
qed

theorem scoring_scaled_or_fallback_witness:
  "fst (saveAnswer relayed_scorer (1 / 2) example_session long_answer) = [long_answer_request]
   \<and> sample_evaluator long_answer_request
       = Evaluation (Finite (1080863910568919 / 2 ^ 56)) ''Accurate and concise.''
   \<and> req_question long_answer_request \<noteq> []
   \<and> (0::real) \<le> 1080863910568919 / 2 ^ 56 \<and> (1080863910568919::real) / 2 ^ 56 \<le> 1
   \<and> round (1080863910568919 / 2 ^ 56 * 100 :: real) = 1
   \<and> js_times (Finite (1080863910568919 / 2 ^ 56)) (Finite 100) = Finite (3 / 2)
   \<and> post_gemini_analyze sample_evaluator long_answer_request
       = HttpOk \<lparr>aj_score = Some 2, aj_feedback = ''Accurate and concise.''\<rparr>
   \<and> relayed_scorer long_answer_request
       = HttpOk \<lparr>an_score = 2, an_feedback = ''Accurate and concise.'',
                an_strengths = None, an_weaknesses = None\<rparr>
   \<and> (\<exists>rec. find (\<lambda>x. questionId x = ''Q2'')
                (answers (snd (saveAnswer relayed_scorer (1 / 2) example_session long_answer)))
                  = Some rec
          \<and> score rec = Some 2)
   \<and> fst (saveAnswer scoring_down (1 / 2) example_session long_answer) = [long_answer_request]
   \<and> (\<forall>an. scoring_down long_answer_request \<noteq> HttpOk an)
   \<and> (0::real) \<le> 1 / 2 \<and> (1::real) / 2 \<le> 1 - 1 / 2 ^ 53
   \<and> (\<exists>rec v. find (\<lambda>x. questionId x = ''Q2'')
                (answers (snd (saveAnswer scoring_down (1 / 2) example_session long_answer)))
                  = Some rec
          \<and> score rec = Some v \<and> 50 \<le> v \<and> v \<le> 70)"
proof -
  let ?d = "1080863910568919 / 2 ^ 56 :: real"
  note s1 = long_answer_sent [of relayed_scorer "1 / 2"]
  note s2 = long_answer_sent [of scoring_down "1 / 2"]
  have e: "sample_evaluator long_answer_request = Evaluation (Finite ?d) ''Accurate and concise.''"
    by (simp add: sample_evaluator_def)
  have q: "req_question long_answer_request \<noteq> []"
    by (simp add: long_answer_request_def)
  have b: "0 \<le> ?d \<and> ?d \<le> 1" by simp
  have x: "round (?d * 100) = 1" by (simp add: round_def floor_unique)
  have v: "round (3 / 2 :: real) = 2"
    by (simp add: round_def floor_unique)
  have f: "relayed_scorer long_answer_request
       = HttpOk \<lparr>an_score = 2, an_feedback = ''Accurate and concise.'',
                an_strengths = None, an_weaknesses = None\<rparr>"
    by (simp add: relayed_scorer_def)
  have d: "\<forall>an. scoring_down long_answer_request \<noteq> HttpOk an"
    by (simp add: scoring_down_def)
  have id: "ad_questionId long_answer = ''Q2''"
    by (simp add: long_answer_def)
  have h: "(0::real) \<le> 1 / 2 \<and> (1::real) / 2 \<le> 1 - 1 / 2 ^ 53" by simp
  note t = scoring_scaled_or_fallback [OF s1, of sample_evaluator, THEN conjunct1,
      THEN spec, THEN spec, THEN mp, OF conjI [OF e conjI [OF q b]]]
  from t [unfolded sample_product v id] f
  have a1': "js_times (Finite ?d) (Finite 100) = Finite (3 / 2)
     \<and> post_gemini_analyze sample_evaluator long_answer_request
         = HttpOk \<lparr>aj_score = Some 2, aj_feedback = ''Accurate and concise.''\<rparr>
     \<and> (\<exists>rec. find (\<lambda>x. questionId x = ''Q2'')
                (answers (snd (saveAnswer relayed_scorer (1 / 2) example_session long_answer)))
                  = Some rec
          \<and> score rec = Some 2)"
    by blast
  from scoring_scaled_or_fallback [OF s2] d h
  have a2: "\<exists>rec v. find (\<lambda>x. questionId x = ad_questionId long_answer)
                (answers (snd (saveAnswer scoring_down (1 / 2) example_session long_answer)))
                  = Some rec
          \<and> score rec = Some v \<and> 50 \<le> v \<and> v \<le> 70"
    by blast
  from a2 have a2': "\<exists>rec v. find (\<lambda>x. questionId x = ''Q2'')
                (answers (snd (saveAnswer scoring_down (1 / 2) example_session long_answer)))
                  = Some rec
          \<and> score rec = Some v \<and> 50 \<le> v \<and> v \<le> 70"
    unfolding id .
  from s1 s2 e q b x f d h a1' a2' show ?thesis by blast
qed

section \<open>The aggregated result\<close>

lemma Set_add_foldl:
  "foldl Set_add members xs
     = members @ dedupe_first_seen (filter (\<lambda>y. y \<notin> set members) xs)"
proof (induction xs arbitrary: members)
  case Nil
  then show ?case by simp
next
  case (Cons x xs)
  show ?case
  proof (cases "x \<in> set members")
    case True
    then have "Set_add members x = members" by (simp add: Set_add_def)
    with True show ?thesis by (simp add: Cons.IH)
  next
    case False
    have "filter (\<lambda>y. y \<notin> set (members @ [x])) xs
            = filter (\<lambda>y. y \<noteq> x) (filter (\<lambda>y. y \<notin> set members) xs)"
      by (auto intro: filter_cong)
    moreover from False have "Set_add members x = members @ [x]" by (simp add: Set_add_def)
    ultimately show ?thesis using False by (simp add: Cons.IH)
  qed
qed

lemma new_Set_dedupe: "new_Set xs = dedupe_first_seen xs"
  by (simp add: new_Set_def Set_add_foldl)

lemma set_dedupe_first_seen: "set (dedupe_first_seen xs) = set xs"
  by (induction xs rule: dedupe_first_seen.induct) auto

lemma distinct_dedupe_first_seen: "distinct (dedupe_first_seen xs)"
  by (induction xs rule: dedupe_first_seen.induct) (auto simp: set_dedupe_first_seen)

lemma finishInterview_result:
  "result (finishInterview now_ms s)
     = (if answers s \<noteq> [] \<and> config s \<noteq> None then Some (resultToSave now_ms s) else None)"
  by (simp add: finishInterview_def Let_def split: option.split)

lemma feedback_of_bands:
  "(t \<ge> 80 \<longrightarrow> feedback_of t = ''Excellent job! You demonstrated strong communication skills and provided comprehensive answers.'')
   \<and> (70 \<le> t \<and> t < 80 \<longrightarrow> feedback_of t = ''Good job! Your answers were solid with some room for improvement in specific areas.'')
   \<and> (60 \<le> t \<and> t < 70 \<longrightarrow> feedback_of t = ''Satisfactory performance. With some preparation, you can improve your interview skills.'')
   \<and> (t < 60 \<longrightarrow> feedback_of t = ''You need more practice with interview questions. Focus on being more specific and structured in your answers.'')"
  by (simp add: feedback_of_def)

text \<open>
  C7. In every aggregated result the strengths are the strength tags of all recorded
  answers, flattened, without the empty ones, deduplicated keeping first occurrences, and
  cut to the first five; the improvements are the same of the weakness tags. The feedback
  text is chosen by the total score alone: at least 80, else at least 70, else at least
  60, else the lowest band.
\<close>

theorem aggregate_tags_and_feedback:
  assumes "result (finishInterview now_ms s) = Some r"
  shows "result_strengths r
           = take 5 (dedupe_first_seen (filter (\<lambda>t. t \<noteq> [])
               (concat (map (\<lambda>a. case strengths a of Some l \<Rightarrow> l | None \<Rightarrow> []) (answers s)))))
       \<and> improvements r
           = take 5 (dedupe_first_seen (filter (\<lambda>t. t \<noteq> [])
               (concat (map (\<lambda>a. case weaknesses a of Some l \<Rightarrow> l | None \<Rightarrow> []) (answers s)))))
       \<and> distinct (result_strengths r) \<and> length (result_strengths r) \<le> 5
       \<and> distinct (improvements r) \<and> length (improvements r) \<le> 5
       \<and> [] \<notin> set (result_strengths r) \<and> [] \<notin> set (improvements r)
       \<and> (totalScore r \<ge> 80 \<longrightarrow> result_feedback r = ''Excellent job! You demonstrated strong communication skills and provided comprehensive answers.'')
       \<and> (70 \<le> totalScore r \<and> totalScore r < 80 \<longrightarrow> result_feedback r = ''Good job! Your answers were solid with some room for improvement in specific areas.'')
       \<and> (60 \<le> totalScore r \<and> totalScore r < 70 \<longrightarrow> result_feedback r = ''Satisfactory performance. With some preparation, you can improve your interview skills.'')
       \<and> (totalScore r < 60 \<longrightarrow> result_feedback r = ''You need more practice with interview questions. Focus on being more specific and structured in your answers.'')"
proof -
  from assms have r: "r = resultToSave now_ms s"
    by (simp add: finishInterview_result split: if_splits)
  let ?S = "filter (\<lambda>t. t \<noteq> [])
               (concat (map (\<lambda>a. case strengths a of Some l \<Rightarrow> l | None \<Rightarrow> []) (answers s)))"
  let ?W = "filter (\<lambda>t. t \<noteq> [])
               (concat (map (\<lambda>a. case weaknesses a of Some l \<Rightarrow> l | None \<Rightarrow> []) (answers s)))"
  have a: "result_strengths r = take 5 (dedupe_first_seen ?S)"
    by (simp add: r resultToSave_def uniqueStrengths_def new_Set_dedupe)
  have b: "improvements r = take 5 (dedupe_first_seen ?W)"
    by (simp add: r resultToSave_def uniqueImprovements_def new_Set_dedupe)
  have c: "distinct (take 5 (dedupe_first_seen xs))" for xs :: "string list"
    by (simp add: distinct_dedupe_first_seen)
  have d: "[] \<notin> set (take 5 (dedupe_first_seen (filter (\<lambda>t. t \<noteq> []) xs)))" for xs :: "string list"
  proof
    assume "[] \<in> set (take 5 (dedupe_first_seen (filter (\<lambda>t. t \<noteq> []) xs)))"
    then have "[] \<in> set (dedupe_first_seen (filter (\<lambda>t. t \<noteq> []) xs))"
      by (rule in_set_takeD)
    then show False by (simp add: set_dedupe_first_seen)
  qed
  have f: "result_feedback r = feedback_of (totalScore r)"
    by (simp add: r resultToSave_def)
  show ?thesis
    using feedback_of_bands [of "totalScore r"] c [of ?S] c [of ?W] d d
    by (simp add: a b f)
qed

theorem aggregate_tags_and_feedback_witness:
  "result (finishInterview 1700003600000 example_session)
     = Some (resultToSave 1700003600000 example_session)
   \<and> result_strengths (resultToSave 1700003600000 example_session)
       = [''clarity'', ''examples'', ''structure'']
   \<and> improvements (resultToSave 1700003600000 example_session) = [''depth'']
   \<and> totalScore (resultToSave 1700003600000 example_session) \<ge> 80
   \<and> result_feedback (resultToSave 1700003600000 example_session)
       = ''Excellent job! You demonstrated strong communication skills and provided comprehensive answers.''"
proof -
  have r: "result (finishInterview 1700003600000 example_session)
     = Some (resultToSave 1700003600000 example_session)"
    by (simp add: finishInterview_result example_session_def example_answers_def)
  have t: "totalScore (resultToSave 1700003600000 example_session) = 80"
    by (simp add: resultToSave_def totalScore_of_def answersWithScores_def
        example_session_def example_answers_def)
  have st: "answers example_session = example_answers"
    by (simp add: example_session_def)
  show ?thesis
    using r t aggregate_tags_and_feedback [OF r]
    by (simp add: st example_answers_def)
qed








subsection \<open>Sessions that can arise\<close>


lemma startInterview_config:
  "config s \<noteq> None \<Longrightarrow>
   config (snd (startInterview fetchQuestions getUserMedia getRandomId s options)) \<noteq> None"
  by (auto simp: startInterview_def Let_def split: option.split http_reply.split sum.split prod.split)













end
